theory Spec2Isabelle
  imports Complex_Main "HOL-Library.Char_ord" "HOL-Library.List_Lexorder" "HOL-Library.Multiset"
begin

section \<open>Python primitives used by lsf.py\<close>

text \<open>
  lsf.py is a Python program; its error paths (\<open>error.message\<close>, \<open>error[1]\<close>,
  \<open>raw_input\<close>) are those of Python 2.7, whose semantics the model follows.
  Every exception the modelled code can raise is a value of \<open>error\<close>; a function
  that may raise returns \<open>error + 'a\<close> with \<open>Inl\<close> for the exception.
\<close>

datatype error =
    ValueError string
  | IndexError
  | OverflowError
  | TypeError
  | UnboundLocalError
  | KeyError
  | ArgumentTypeError string
  | ReError string
  | SyntaxError
  | NameError string
  | OtherError string

text \<open>The single-quote character, and \<open>"'%s'" % s\<close>.\<close>

definition squote :: char where
  "squote = CHR 0x27"

definition quoted :: "string \<Rightarrow> string" where
  "quoted s = squote # s @ [squote]"

subsection \<open>Whitespace, \<open>str.split\<close>, \<open>str.lower\<close>\<close>

text \<open>C \<open>isspace\<close> in the C locale: space, and \<open>\t \n \v \f \r\<close>.\<close>

definition is_space :: "char \<Rightarrow> bool" where
  "is_space c = (c = CHR 0x20 \<or> c = CHR 0x09 \<or> c = CHR 0x0A \<or> c = CHR 0x0B
                 \<or> c = CHR 0x0C \<or> c = CHR 0x0D)"

definition strip :: "string \<Rightarrow> string" where
  "strip s = rev (dropWhile is_space (rev (dropWhile is_space s)))"

text \<open>\<open>s.split()\<close>: the maximal runs of non-whitespace characters.\<close>

fun split_ws_acc :: "string \<Rightarrow> string \<Rightarrow> string list" where
  "split_ws_acc cur [] = (if cur = [] then [] else [rev cur])"
| "split_ws_acc cur (c # cs) =
     (if is_space c
      then (if cur = [] then split_ws_acc [] cs else rev cur # split_ws_acc [] cs)
      else split_ws_acc (c # cur) cs)"

definition split_ws :: "string \<Rightarrow> string list" where
  "split_ws s = split_ws_acc [] s"

text \<open>\<open>s.split(sep)\<close> for a one-character separator: never an empty list.\<close>

fun split_on_acc :: "char \<Rightarrow> string \<Rightarrow> string \<Rightarrow> string list" where
  "split_on_acc sep cur [] = [rev cur]"
| "split_on_acc sep cur (c # cs) =
     (if c = sep then rev cur # split_on_acc sep [] cs
      else split_on_acc sep (c # cur) cs)"

definition split_on :: "char \<Rightarrow> string \<Rightarrow> string list" where
  "split_on sep s = split_on_acc sep [] s"

text \<open>\<open>c.lower()\<close> on a byte string in the C locale: only \<open>A\<close>..\<open>Z\<close> change.\<close>

definition lower_char :: "char \<Rightarrow> char" where
  "lower_char c =
     (if CHR ''A'' \<le> c \<and> c \<le> CHR ''Z'' then char_of (of_char c + (32::nat)) else c)"

subsection \<open>Decimal literals\<close>

definition is_digit :: "char \<Rightarrow> bool" where
  "is_digit c = (CHR ''0'' \<le> c \<and> c \<le> CHR ''9'')"

definition digit_val :: "char \<Rightarrow> nat" where
  "digit_val c = of_char c - 48"

fun digits_val_acc :: "nat \<Rightarrow> string \<Rightarrow> nat" where
  "digits_val_acc acc [] = acc"
| "digits_val_acc acc (c # cs) = digits_val_acc (10 * acc + digit_val c) cs"

definition digits_val :: "string \<Rightarrow> nat" where
  "digits_val s = digits_val_acc 0 s"

text \<open>An optional sign in front of a literal: the sign and the rest.\<close>

definition take_sign :: "string \<Rightarrow> bool \<times> string" where
  "take_sign s =
     (case s of
        [] \<Rightarrow> (False, [])
      | c # cs \<Rightarrow> if c = CHR ''-'' then (True, cs)
                  else if c = CHR ''+'' then (False, cs)
                  else (False, s))"

text \<open>
  \<open>int(s)\<close> for a string: surrounding whitespace is ignored, then an optional sign
  and at least one decimal digit, nothing else (the grammar Python 2.7 and Python 3
  share; \<open>None\<close> is the ValueError).
\<close>

definition py_int_of_str :: "string \<Rightarrow> int option" where
  "py_int_of_str s =
     (let (neg, ds) = take_sign (strip s)
      in if ds \<noteq> [] \<and> list_all is_digit ds
         then Some (if neg then - int (digits_val ds) else int (digits_val ds))
         else None)"

subsection \<open>Floating-point numbers\<close>

text \<open>
  A Python float is an IEEE 754 double: a finite value (a rational that is a multiple
  of a power of two with a 53-bit significand), an infinity or a NaN. The sign of
  zero is not kept: nothing in lsf.py can observe it (\<open>int(-0.0)\<close> is \<open>0\<close>).
  Arithmetic is the exact rational result rounded to the nearest double, ties to the
  even significand, as IEEE 754 prescribes and as \<open>float(str)\<close> does.
\<close>

datatype pyfloat = Fin rat | PInf | NInf | NaN

text \<open>Number of bits of a positive integer.\<close>

function bitlen :: "int \<Rightarrow> int" where
  "bitlen n = (if n \<le> 0 then 0 else 1 + bitlen (n div 2))"
  by pat_completeness auto
termination
  by (relation "measure nat") auto

declare bitlen.simps [simp del]

definition sqr :: "int \<Rightarrow> int" where
  "sqr x = x * x"

text \<open>\<open>2 ^ n\<close> by repeated squaring (\<open>pow2i_eq\<close> below).\<close>

function pow2i :: "int \<Rightarrow> int" where
  "pow2i n = (if n \<le> 0 then 1 else (if even n then 1 else 2) * sqr (pow2i (n div 2)))"
  by pat_completeness auto
termination
  by (relation "measure nat") auto

declare pow2i.simps [simp del]

definition pow2 :: "int \<Rightarrow> rat" where
  "pow2 e = (if 0 \<le> e then of_int (pow2i e) else 1 / of_int (pow2i (- e)))"

definition pow10 :: "int \<Rightarrow> rat" where
  "pow10 e = (if 0 \<le> e then 10 ^ nat e else 1 / 10 ^ nat (- e))"

definition round_half_even :: "rat \<Rightarrow> int" where
  "round_half_even x =
     (let f = \<lfloor>x\<rfloor>; d = x - of_int f
      in if d < 1 / 2 then f
         else if 1 / 2 < d then f + 1
         else if even f then f else f + 1)"

text \<open>For \<open>a > 0\<close>: the \<open>e\<close> with \<open>2 ^ e \<le> a < 2 ^ (e + 1)\<close>.\<close>

definition floor_log2 :: "rat \<Rightarrow> int" where
  "floor_log2 a =
     (let (p, d) = quotient_of a;
          e0 = bitlen p - bitlen d
      in if pow2 e0 \<le> a then e0 else e0 - 1)"

text \<open>
  Rounding a rational to a double: the unit in the last place is \<open>2 ^ (e - 52)\<close>,
  and never below \<open>2 ^ -1074\<close> (subnormals); a result of \<open>2 ^ 1024\<close> or more is an
  infinity.
\<close>

definition round_double :: "rat \<Rightarrow> pyfloat" where
  "round_double q =
     (if q = 0 then Fin 0
      else let a = \<bar>q\<bar>;
               t = max (floor_log2 a - 52) (- 1074);
               r = of_int (round_half_even (a / pow2 t)) * pow2 t
           in if pow2 1024 \<le> r then (if q < 0 then NInf else PInf)
              else Fin (if q < 0 then - r else r))"

text \<open>
  \<open>x * k\<close> for a float \<open>x\<close> and one of the positive integer constants of lsf.py
  (all exactly representable).
\<close>

fun fmul_const :: "pyfloat \<Rightarrow> int \<Rightarrow> pyfloat" where
  "fmul_const (Fin a) k = round_double (a * of_int k)"
| "fmul_const PInf k = PInf"
| "fmul_const NInf k = NInf"
| "fmul_const NaN k = NaN"

text \<open>
  \<open>x - n\<close> for a finite float \<open>x\<close> and an integer \<open>n\<close>: the integer is converted to
  a float first, which raises OverflowError when it is too large.
\<close>

definition fsub_int :: "rat \<Rightarrow> int \<Rightarrow> error + pyfloat" where
  "fsub_int x n =
     (case round_double (of_int n) of
        Fin b \<Rightarrow> Inr (round_double (x - b))
      | _ \<Rightarrow> Inl OverflowError)"

text \<open>\<open>int(x)\<close> for a float: truncation towards zero.\<close>

definition trunc_rat :: "rat \<Rightarrow> int" where
  "trunc_rat q = (if 0 \<le> q then \<lfloor>q\<rfloor> else - \<lfloor>- q\<rfloor>)"

fun py_int_of_float :: "pyfloat \<Rightarrow> error + int" where
  "py_int_of_float (Fin q) = Inr (trunc_rat q)"
| "py_int_of_float NaN = Inl (ValueError ''cannot convert float NaN to integer'')"
| "py_int_of_float PInf = Inl OverflowError"
| "py_int_of_float NInf = Inl OverflowError"

text \<open>
  \<open>float(s)\<close> for a string (\<open>None\<close> is the ValueError): surrounding whitespace is
  ignored; then an optional sign and either \<open>inf\<close>, \<open>infinity\<close> or \<open>nan\<close> in any
  case, or decimal digits with an optional point (at least one digit in all) and
  an optional exponent \<open>e\<close> or \<open>E\<close>, sign, digits.
\<close>

definition signed :: "bool \<Rightarrow> nat \<Rightarrow> int" where
  "signed neg n = (if neg then - int n else int n)"

definition parse_exponent :: "string \<Rightarrow> int option" where
  "parse_exponent r =
     (case r of
        [] \<Rightarrow> Some 0
      | c # cs \<Rightarrow>
          if c = CHR ''e'' \<or> c = CHR ''E''
          then (let (neg, ds) = take_sign cs
                in if ds \<noteq> [] \<and> list_all is_digit ds
                   then Some (signed neg (digits_val ds)) else None)
          else None)"

definition py_float_of_str :: "string \<Rightarrow> pyfloat option" where
  "py_float_of_str s =
     (let (neg, r) = take_sign (strip s); w = map lower_char r
      in if w = ''inf'' \<or> w = ''infinity'' then Some (if neg then NInf else PInf)
         else if w = ''nan'' then Some NaN
         else let ip = takeWhile is_digit r;
                  r1 = dropWhile is_digit r;
                  has_point = (r1 \<noteq> [] \<and> hd r1 = CHR ''.'');
                  fp = (if has_point then takeWhile is_digit (tl r1) else []);
                  r2 = (if has_point then dropWhile is_digit (tl r1) else r1)
              in if ip @ fp = [] then None
                 else case parse_exponent r2 of
                        None \<Rightarrow> None
                      | Some e \<Rightarrow>
                          Some (round_double
                                  (of_int (signed neg (digits_val (ip @ fp)))
                                   * pow10 (e - int (length fp)))))"

section \<open>FileSize\<close>

text \<open>
  \<open>FileSize.from_string\<close> below its cache lookup. \<open>size_str[-1]\<close> raises IndexError
  on the empty string; \<open>modifier not in "bkmg"\<close> compares the character as it is.
\<close>

definition FileSize_parse :: "string \<Rightarrow> error + int" where
  "FileSize_parse size_str =
     (if size_str = [] then Inl IndexError
      else let modifier = last size_str;
               has_modifier = (modifier \<in> set ''bkmg'');
               size = (if has_modifier then butlast size_str else size_str)
           in case py_float_of_str size of
                None \<Rightarrow>
                  Inl (ValueError (quoted size_str @ '' is not a valid FILESIZE string''))
              | Some f \<Rightarrow>
                  py_int_of_float
                    (if has_modifier then
                       (if modifier = CHR ''b'' then fmul_const f 512
                        else if modifier = CHR ''k'' then fmul_const f 1024
                        else if modifier = CHR ''m'' then fmul_const (fmul_const f 1024) 1024
                        else fmul_const (fmul_const (fmul_const f 1024) 1024) 1024)
                     else f))"

text \<open>
  \<open>FileSize.from_string\<close> with the class attribute \<open>known_strings\<close> passed in and
  returned: a string already a key is answered from the dictionary, a string parsed
  with success is stored, a failure stores nothing.
\<close>

definition FileSize_from_string ::
  "(string \<rightharpoonup> int) \<Rightarrow> string \<Rightarrow> (error + int) \<times> (string \<rightharpoonup> int)" where
  "FileSize_from_string known_strings size_str =
     (case known_strings size_str of
        Some v \<Rightarrow> (Inr v, known_strings)
      | None \<Rightarrow>
          (case FileSize_parse size_str of
             Inl e \<Rightarrow> (Inl e, known_strings)
           | Inr v \<Rightarrow> (Inr v, known_strings(size_str \<mapsto> v))))"

text \<open>
  The right-hand operand of a comparison: a native integer or a string
  (\<open>isinstance(arg, str)\<close>).
\<close>

datatype operand = IntArg int | StrArg string

text \<open>
  The decorator \<open>FileSize.arg_to_int\<close>: a string argument goes through
  \<open>FileSize.from_string\<close> before the wrapped method sees it; the exception of the
  parser is the exception of the comparison.
\<close>

definition arg_to_int ::
  "(int \<Rightarrow> int \<Rightarrow> bool) \<Rightarrow> (string \<rightharpoonup> int) \<Rightarrow> int \<Rightarrow> operand
     \<Rightarrow> (error + bool) \<times> (string \<rightharpoonup> int)" where
  "arg_to_int func known_strings self arg =
     (case arg of
        IntArg n \<Rightarrow> (Inr (func self n), known_strings)
      | StrArg s \<Rightarrow>
          (case FileSize_from_string known_strings s of
             (Inl e, k) \<Rightarrow> (Inl e, k)
           | (Inr n, k) \<Rightarrow> (Inr (func self n), k)))"

definition FileSize_lt where "FileSize_lt = arg_to_int (\<lambda>self other. self < other)"
definition FileSize_gt where "FileSize_gt = arg_to_int (\<lambda>self other. self > other)"
definition FileSize_le where "FileSize_le = arg_to_int (\<lambda>self other. self \<le> other)"
definition FileSize_ge where "FileSize_ge = arg_to_int (\<lambda>self other. self \<ge> other)"
definition FileSize_eq where "FileSize_eq = arg_to_int (\<lambda>self other. self = other)"
definition FileSize_ne where "FileSize_ne = arg_to_int (\<lambda>self other. self \<noteq> other)"

section \<open>Unixtime\<close>

text \<open>
  \<open>Unixtime.reltime_to_secs\<close>. \<open>time_str[-1]\<close> raises IndexError on the empty
  string; the unit letter is lower-cased before it is looked up in \<open>"mhdwy"\<close>.
\<close>

definition Unixtime_reltime_to_secs :: "string \<Rightarrow> error + int" where
  "Unixtime_reltime_to_secs time_str =
     (if time_str = [] then Inl IndexError
      else let last_lower = lower_char (last time_str);
               has_modifier = (last_lower \<in> set ''mhdwy'');
               modifier = (if has_modifier then last_lower else CHR ''d'');
               secs = (if has_modifier then butlast time_str else time_str)
           in case py_float_of_str secs of
                None \<Rightarrow>
                  Inl (ValueError (quoted time_str @ '' is not a valid DATETIME string''))
              | Some f \<Rightarrow>
                  py_int_of_float
                    (if modifier = CHR ''m'' then fmul_const f 60
                     else if modifier = CHR ''h'' then fmul_const (fmul_const f 60) 60
                     else if modifier = CHR ''d'' then
                       fmul_const (fmul_const (fmul_const f 60) 60) 24
                     else if modifier = CHR ''w'' then
                       fmul_const (fmul_const (fmul_const (fmul_const f 60) 60) 24) 7
                     else
                       fmul_const (fmul_const (fmul_const (fmul_const f 60) 60) 24) 365))"

fun is_ValueError :: "error + 'a \<Rightarrow> bool" where
  "is_ValueError (Inl (ValueError m)) = True"
| "is_ValueError _ = False"

text \<open>
  \<open>Unixtime.str_to_secs\<close>. Its surroundings are parameters: \<open>now\<close> is what
  \<open>time.time()\<close> returns at this call; \<open>strptime_mktime s fmt\<close> is
  \<open>int(time.mktime(time.strptime(s, fmt)))\<close>, which depends on the locale and the
  time zone of the process, with the exception it raises; \<open>known_strings\<close> is the
  class attribute, passed in and returned.
  A ValueError of the relative reading sends the string to the absolute reading;
  any other exception leaves the function.
\<close>

definition Unixtime_str_to_secs ::
  "rat \<Rightarrow> (string \<Rightarrow> string \<Rightarrow> error + int) \<Rightarrow> (string \<rightharpoonup> int) \<Rightarrow> string
     \<Rightarrow> (error + int) \<times> (string \<rightharpoonup> int)" where
  "Unixtime_str_to_secs now strptime_mktime known_strings time_str =
     (case known_strings time_str of
        Some v \<Rightarrow> (Inr v, known_strings)
      | None \<Rightarrow>
          (let relative =
                 (case Unixtime_reltime_to_secs time_str of
                    Inl e \<Rightarrow> Inl e
                  | Inr n \<Rightarrow>
                      (case fsub_int now n of
                         Inl e \<Rightarrow> Inl e
                       | Inr f \<Rightarrow> py_int_of_float f));
               utime =
                 (if is_ValueError relative then
                    (let time_format =
                           (if length (split_ws time_str) = 3 then ''%b %d %Y''
                            else ''%b %d %Y %H:%M'');
                         absolute = strptime_mktime time_str time_format
                     in if is_ValueError absolute
                        then Inl (ValueError (quoted time_str @ '' is not a valid DATETIME''))
                        else absolute)
                  else relative)
           in case utime of
                Inl e \<Rightarrow> (Inl e, known_strings)
              | Inr v \<Rightarrow> (Inr v, known_strings(time_str \<mapsto> v))))"

text \<open>The decorator \<open>Unixtime.arg_to_unixtime\<close> and the six methods it wraps.\<close>

definition arg_to_unixtime ::
  "(int \<Rightarrow> int \<Rightarrow> bool) \<Rightarrow> rat \<Rightarrow> (string \<Rightarrow> string \<Rightarrow> error + int)
     \<Rightarrow> (string \<rightharpoonup> int) \<Rightarrow> int \<Rightarrow> operand \<Rightarrow> (error + bool) \<times> (string \<rightharpoonup> int)" where
  "arg_to_unixtime func now strptime_mktime known_strings self arg =
     (case arg of
        IntArg n \<Rightarrow> (Inr (func self n), known_strings)
      | StrArg s \<Rightarrow>
          (case Unixtime_str_to_secs now strptime_mktime known_strings s of
             (Inl e, k) \<Rightarrow> (Inl e, k)
           | (Inr n, k) \<Rightarrow> (Inr (func self n), k)))"

definition Unixtime_lt where "Unixtime_lt = arg_to_unixtime (\<lambda>self other. self < other)"
definition Unixtime_le where "Unixtime_le = arg_to_unixtime (\<lambda>self other. self \<le> other)"
definition Unixtime_gt where "Unixtime_gt = arg_to_unixtime (\<lambda>self other. self > other)"
definition Unixtime_ge where "Unixtime_ge = arg_to_unixtime (\<lambda>self other. self \<ge> other)"
definition Unixtime_eq where "Unixtime_eq = arg_to_unixtime (\<lambda>self other. self = other)"
definition Unixtime_ne where "Unixtime_ne = arg_to_unixtime (\<lambda>self other. self \<noteq> other)"

section \<open>Uid and Gid\<close>

text \<open>
  \<open>Uid.from_str\<close> and \<open>Gid.from_str\<close> are the same code over \<open>pwd.getpwnam\<close> and
  \<open>grp.getgrnam\<close>. The parameters: \<open>windows\<close> is \<open>OS_IS_WINDOWS\<close>; \<open>getnam\<close> is
  the user (group) database, \<open>None\<close> where the lookup raises KeyError; \<open>kind\<close> is
  the end of the message. On Windows the function returns 0 before it stores
  anything.
\<close>

definition id_from_str ::
  "string \<Rightarrow> bool \<Rightarrow> (string \<rightharpoonup> int) \<Rightarrow> (string \<rightharpoonup> int) \<Rightarrow> string
     \<Rightarrow> (error + int) \<times> (string \<rightharpoonup> int)" where
  "id_from_str kind windows getnam known name_or_id =
     (case known name_or_id of
        Some v \<Rightarrow> (Inr v, known)
      | None \<Rightarrow>
          if windows then (Inr 0, known)
          else (case py_int_of_str name_or_id of
                  Some n \<Rightarrow> (Inr n, known(name_or_id \<mapsto> n))
                | None \<Rightarrow>
                    (case getnam name_or_id of
                       Some n \<Rightarrow> (Inr n, known(name_or_id \<mapsto> n))
                     | None \<Rightarrow>
                         (Inl (ValueError (quoted name_or_id @ '' is not a valid '' @ kind)),
                          known))))"

definition Uid_from_str where
  "Uid_from_str = id_from_str ''username or UID''"

definition Gid_from_str where
  "Gid_from_str = id_from_str ''group name or GID''"

text \<open>The decorators \<open>Uid.make_uid\<close> and \<open>Gid.make_gid\<close>, and the methods.\<close>

definition make_uid ::
  "(int \<Rightarrow> int \<Rightarrow> bool) \<Rightarrow> bool \<Rightarrow> (string \<rightharpoonup> int) \<Rightarrow> (string \<rightharpoonup> int) \<Rightarrow> int
     \<Rightarrow> operand \<Rightarrow> (error + bool) \<times> (string \<rightharpoonup> int)" where
  "make_uid func windows getpwnam known_usernames self arg =
     (case arg of
        IntArg n \<Rightarrow> (Inr (func self n), known_usernames)
      | StrArg s \<Rightarrow>
          (case Uid_from_str windows getpwnam known_usernames s of
             (Inl e, k) \<Rightarrow> (Inl e, k)
           | (Inr n, k) \<Rightarrow> (Inr (func self n), k)))"

definition make_gid ::
  "(int \<Rightarrow> int \<Rightarrow> bool) \<Rightarrow> bool \<Rightarrow> (string \<rightharpoonup> int) \<Rightarrow> (string \<rightharpoonup> int) \<Rightarrow> int
     \<Rightarrow> operand \<Rightarrow> (error + bool) \<times> (string \<rightharpoonup> int)" where
  "make_gid func windows getgrnam known_groups self arg =
     (case arg of
        IntArg n \<Rightarrow> (Inr (func self n), known_groups)
      | StrArg s \<Rightarrow>
          (case Gid_from_str windows getgrnam known_groups s of
             (Inl e, k) \<Rightarrow> (Inl e, k)
           | (Inr n, k) \<Rightarrow> (Inr (func self n), k)))"

definition Uid_lt where "Uid_lt = make_uid (\<lambda>self other. self < other)"
definition Uid_gt where "Uid_gt = make_uid (\<lambda>self other. self > other)"
definition Uid_le where "Uid_le = make_uid (\<lambda>self other. self \<le> other)"
definition Uid_ge where "Uid_ge = make_uid (\<lambda>self other. self \<ge> other)"
definition Uid_eq where "Uid_eq = make_uid (\<lambda>self other. self = other)"
definition Uid_ne where "Uid_ne = make_uid (\<lambda>self other. self \<noteq> other)"

definition Gid_lt where "Gid_lt = make_gid (\<lambda>self other. self < other)"
definition Gid_gt where "Gid_gt = make_gid (\<lambda>self other. self > other)"
definition Gid_le where "Gid_le = make_gid (\<lambda>self other. self \<le> other)"
definition Gid_ge where "Gid_ge = make_gid (\<lambda>self other. self \<ge> other)"
definition Gid_eq where "Gid_eq = make_gid (\<lambda>self other. self = other)"
definition Gid_ne where "Gid_ne = make_gid (\<lambda>self other. self \<noteq> other)"

section \<open>File type codes and the value lists of the command line\<close>

text \<open>The \<open>stat.S_IF*\<close> constants (octal 040000, 020000, 060000, 0100000, ...).\<close>

definition S_IFDIR :: int where "S_IFDIR = 16384"
definition S_IFCHR :: int where "S_IFCHR = 8192"
definition S_IFBLK :: int where "S_IFBLK = 24576"
definition S_IFREG :: int where "S_IFREG = 32768"
definition S_IFLNK :: int where "S_IFLNK = 40960"
definition S_IFIFO :: int where "S_IFIFO = 4096"
definition S_IFSOCK :: int where "S_IFSOCK = 49152"

text \<open>\<open>FileTypeCode.from_char\<close>.\<close>

definition from_char :: "char \<rightharpoonup> int" where
  "from_char = map_of
     [(CHR ''d'', S_IFDIR), (CHR ''c'', S_IFCHR), (CHR ''b'', S_IFBLK), (CHR ''r'', S_IFREG),
      (CHR ''l'', S_IFLNK), (CHR ''p'', S_IFIFO), (CHR ''s'', S_IFSOCK)]"

definition field_words :: "string list" where
  "field_words =
     [''Mode'', ''inode'', ''dev'', ''Nlink'', ''uid'', ''gid'', ''size'', ''atime'',
      ''mtime'', ''ctime'', ''path'', ''name'', ''filepath'', ''target'', ''Typecode'']"

definition field_letters :: string where
  "field_letters = map hd field_words"

definition file_type_words :: "string list" where
  "file_type_words =
     [''regular'', ''dir'', ''link'', ''char'', ''block'', ''pipe'', ''socket'']"

text \<open>\<open>FileStats.file_type_chars\<close>, a Python set: only membership is used.\<close>

definition file_type_chars :: string where
  "file_type_chars = map hd file_type_words"

text \<open>\<open>xs.index(x)\<close>; \<open>None\<close> is the ValueError.\<close>

fun index_of :: "'a \<Rightarrow> 'a list \<Rightarrow> nat option" where
  "index_of x [] = None"
| "index_of x (y # ys) =
     (if x = y then Some 0 else map_option Suc (index_of x ys))"

definition arg_has_plus :: "string \<Rightarrow> error + (string \<times> bool)" where
  "arg_has_plus arg_string =
     (case arg_string of
        [] \<Rightarrow> Inl IndexError
      | c # cs \<Rightarrow> if c = CHR ''+'' then Inr (cs, True) else Inr (arg_string, False))"

text \<open>\<open>", ".join\<close> and the \<open>repr\<close> of a list of plain words.\<close>

fun join_comma :: "string list \<Rightarrow> string" where
  "join_comma [] = []"
| "join_comma [w] = w"
| "join_comma (w # ws) = w @ '', '' @ join_comma ws"

definition repr_list :: "string list \<Rightarrow> string" where
  "repr_list ws = ''['' @ join_comma (map quoted ws) @ '']''"

text \<open>The loop of \<open>parse_value_list\<close> over the comma-separated words.\<close>

fun first_letters :: "string list \<Rightarrow> string \<Rightarrow> string list \<Rightarrow> error + string" where
  "first_letters valid_words letters [] = Inr letters"
| "first_letters valid_words letters (word # ws) =
     (if word \<notin> set valid_words
      then Inl (ValueError (quoted word @ '' not in '' @ repr_list valid_words))
      else first_letters valid_words (letters @ [hd word]) ws)"

text \<open>
  \<open>parse_value_list\<close>. \<open>word[0]\<close> of an empty valid word would raise IndexError; the
  word lists of lsf.py have none.
\<close>

definition parse_value_list :: "string \<Rightarrow> string list \<Rightarrow> error + string" where
  "parse_value_list val_list valid_words =
     (if val_list = [] then Inl (ValueError ''missing value'')
      else if [] \<in> set valid_words then Inl IndexError
      else let valid_letters = map hd valid_words;
               words = split_on CHR '','' val_list
           in if length words = 1 then
                (if set val_list \<subseteq> set valid_letters then Inr val_list
                 else Inl (ValueError
                        (quoted val_list @ '' contains letters not in '' @ quoted valid_letters
                         @ ''.''
                         @ (if val_list \<in> set valid_words
                            then [CHR 0x0A] @ ''If you meant the keyword '' @ quoted val_list
                                 @ '', you need to follow it with a comma.''
                            else []))))
              else first_letters valid_words []
                     (if last words = [] then butlast words else words))"

text \<open>\<open>[FileTypeCode.from_char[char] for char in tc_set]\<close>; a missing key raises.\<close>

fun typecodes_of :: "string \<Rightarrow> error + int list" where
  "typecodes_of [] = Inr []"
| "typecodes_of (c # cs) =
     (case from_char c of
        None \<Rightarrow> Inl KeyError
      | Some code \<Rightarrow>
          (case typecodes_of cs of Inl e \<Rightarrow> Inl e | Inr codes \<Rightarrow> Inr (code # codes)))"

text \<open>
  \<open>typecode_list_from_string\<close>. The Python set \<open>tc_set\<close> is the list of its
  distinct characters; the order in which Python walks a set is not fixed, and the
  result is only used for membership tests.
\<close>

definition typecode_list_from_string :: "string \<Rightarrow> error + int list" where
  "typecode_list_from_string type_list =
     (case arg_has_plus type_list of
        Inl e \<Rightarrow> Inl e
      | Inr (type_list', include) \<Rightarrow>
          (case parse_value_list type_list' file_type_words of
             Inl (ValueError m) \<Rightarrow> Inl (ArgumentTypeError m)
           | Inl e \<Rightarrow> Inl e
           | Inr tstring \<Rightarrow>
               (let tc_set = (if include
                              then filter (\<lambda>c. c \<notin> set tstring) (remdups file_type_chars)
                              else remdups tstring)
                in case typecodes_of tc_set of
                     Inl e \<Rightarrow> Inl e
                   | Inr typecode_list \<Rightarrow>
                       Inr (if CHR ''l'' \<in> set tc_set then typecode_list @ [0]
                            else typecode_list))))"

section \<open>FileStats and the filter list\<close>

text \<open>
  A FileStats object that was built without error: the tuple \<open>self.stats\<close>, the ten
  values of \<open>os.lstat\<close> followed by path, name, filepath, target and type code.
\<close>

record FileStats =
  st_Mode :: int
  st_inode :: int
  st_dev :: int
  st_Nlink :: int
  st_uid :: int
  st_gid :: int
  st_size :: int
  st_atime :: int
  st_mtime :: int
  st_ctime :: int
  st_path :: string
  st_name :: string
  st_filepath :: string
  st_target :: string
  st_Typecode :: int

datatype pyval = IntVal int | StrVal string

definition stats :: "FileStats \<Rightarrow> pyval list" where
  "stats self =
     [IntVal (st_Mode self), IntVal (st_inode self), IntVal (st_dev self),
      IntVal (st_Nlink self), IntVal (st_uid self), IntVal (st_gid self),
      IntVal (st_size self), IntVal (st_atime self), IntVal (st_mtime self),
      IntVal (st_ctime self), StrVal (st_path self), StrVal (st_name self),
      StrVal (st_filepath self), StrVal (st_target self), IntVal (st_Typecode self)]"

text \<open>
  An entry of \<open>FileStats.filter_list\<close>: the tuple (field, comparison, value,
  field_index, native_value). The native value is an integer, a list of integers,
  a compiled regular expression (kept as its pattern) or \<open>None\<close>.
\<close>

datatype native = NativeInt int | NativeList "int list" | NativeRegex string | NativeNone

record filter_entry =
  f_field :: string
  f_comparison :: string
  f_value :: string
  f_index :: "nat option"
  f_native :: native

text \<open>
  What lsf.py reads from its surroundings when a filter is registered or evaluated:
  the clock, the time zone and locale behind \<open>strptime\<close> and \<open>mktime\<close>, the
  platform, the user and group databases, the regular-expression engine
  (\<open>re.compile\<close>: \<open>Some message\<close> is \<open>re.error\<close>; \<open>pattern.search(s)\<close>: whether there
  is a match), the Python evaluator behind \<open>eval\<close> (the truth value of the
  expression over one record, or the exception it raises), and the FileStats object
  of \<open>sys.argv[0]\<close> (\<open>None\<close> when the script cannot be stat'ed).
\<close>

record environment =
  env_now :: rat
  env_strptime_mktime :: "string \<Rightarrow> string \<Rightarrow> error + int"
  env_windows :: bool
  env_getpwnam :: "string \<rightharpoonup> int"
  env_getgrnam :: "string \<rightharpoonup> int"
  env_re_error :: "string \<Rightarrow> string option"
  env_re_search :: "string \<Rightarrow> string \<Rightarrow> bool"
  env_eval :: "string \<Rightarrow> FileStats \<Rightarrow> error + bool"
  env_argv0 :: "FileStats option"

text \<open>The class attributes that the program mutates.\<close>

record state =
  size_known_strings :: "string \<rightharpoonup> int"
  time_known_strings :: "string \<rightharpoonup> int"
  known_usernames :: "string \<rightharpoonup> int"
  known_groups :: "string \<rightharpoonup> int"
  filter_list :: "filter_entry list"

text \<open>
  \<open>[Uid.from_str(user) for user in value_list]\<close>: the names are resolved from left
  to right and the first exception ends the comprehension.
\<close>

fun from_str_list ::
  "((string \<rightharpoonup> int) \<Rightarrow> string \<Rightarrow> (error + int) \<times> (string \<rightharpoonup> int)) \<Rightarrow> (string \<rightharpoonup> int)
     \<Rightarrow> string list \<Rightarrow> (error + int list) \<times> (string \<rightharpoonup> int)" where
  "from_str_list from_str known [] = (Inr [], known)"
| "from_str_list from_str known (s # ss) =
     (case from_str known s of
        (Inl e, known') \<Rightarrow> (Inl e, known')
      | (Inr n, known') \<Rightarrow>
          (case from_str_list from_str known' ss of
             (Inl e, known'') \<Rightarrow> (Inl e, known'')
           | (Inr ns, known'') \<Rightarrow> (Inr (n # ns), known'')))"

text \<open>
  The branches of \<open>FileStats.add_filter\<close> that compute \<open>comparison\<close> and
  \<open>native_value\<close> for a field other than \<open>"python"\<close>. \<open>None\<close> for the comparison
  is the local variable left unbound (fields such as \<open>"inode"\<close>).
\<close>

definition native_value_of ::
  "environment \<Rightarrow> state \<Rightarrow> string \<Rightarrow> nat \<Rightarrow> string
     \<Rightarrow> (error + (string option \<times> native)) \<times> state" where
  "native_value_of env st field op_index val =
     (if field = ''Typecode'' then
        (case typecode_list_from_string val of
           Inl e \<Rightarrow> (Inl e, st)
         | Inr l \<Rightarrow> (Inr (Some ([''not in'', ''in''] ! op_index), NativeList l), st))
      else if field = ''uid'' then
        (case from_str_list (Uid_from_str (env_windows env) (env_getpwnam env))
                (known_usernames st) (split_on CHR '','' val) of
           (Inl e, k) \<Rightarrow> (Inl e, st\<lparr>known_usernames := k\<rparr>)
         | (Inr l, k) \<Rightarrow>
             (Inr (Some ([''in'', ''not in''] ! op_index), NativeList l),
              st\<lparr>known_usernames := k\<rparr>))
      else if field = ''gid'' then
        (case from_str_list (Gid_from_str (env_windows env) (env_getgrnam env))
                (known_groups st) (split_on CHR '','' val) of
           (Inl e, k) \<Rightarrow> (Inl e, st\<lparr>known_groups := k\<rparr>)
         | (Inr l, k) \<Rightarrow>
             (Inr (Some ([''in'', ''not in''] ! op_index), NativeList l),
              st\<lparr>known_groups := k\<rparr>))
      else if field \<in> set [''mtime'', ''atime'', ''ctime''] then
        (case Unixtime_str_to_secs (env_now env) (env_strptime_mktime env)
                (time_known_strings st) val of
           (Inl e, k) \<Rightarrow> (Inl e, st\<lparr>time_known_strings := k\<rparr>)
         | (Inr n, k) \<Rightarrow>
             (Inr (Some ([''>'', ''<''] ! op_index), NativeInt n),
              st\<lparr>time_known_strings := k\<rparr>))
      else if field = ''size'' then
        (case FileSize_from_string (size_known_strings st) val of
           (Inl e, k) \<Rightarrow> (Inl e, st\<lparr>size_known_strings := k\<rparr>)
         | (Inr n, k) \<Rightarrow>
             (Inr (Some ([''<'', ''>''] ! op_index), NativeInt n),
              st\<lparr>size_known_strings := k\<rparr>))
      else if field \<in> set [''name'', ''path'', ''filepath''] then
        (case env_re_error env val of
           Some m \<Rightarrow> (Inl (ReError m), st)
         | None \<Rightarrow> (Inr (Some ([''~'', ''!~''] ! op_index), NativeRegex val), st))
      else (Inr (None, NativeNone), st))"

text \<open>
  \<open>FileStats.add_filter\<close>. \<open>value[0]\<close> raises IndexError on the empty string, and a
  lone \<open>+\<close> raises a ValueError without a message. For \<open>"python"\<close> the expression
  is tried on the record of \<open>sys.argv[0]\<close>; when that record could not be built,
  reading \<open>self.stats\<close> ends in \<open>field_words.index('stats')\<close>, a ValueError.
\<close>

definition add_filter ::
  "environment \<Rightarrow> state \<Rightarrow> string \<Rightarrow> string \<Rightarrow> (error + unit) \<times> state" where
  "add_filter env st field value0 =
     (if value0 = [] then (Inl IndexError, st)
      else let op_index = (if hd value0 = CHR ''+'' then 1 else 0 :: nat);
               val = (if hd value0 = CHR ''+'' then tl value0 else value0)
           in if val = [] then (Inl (ValueError []), st)
              else if field = ''python'' then
                (case env_argv0 env of
                   None \<Rightarrow> (Inl (ValueError (quoted ''stats'' @ '' is not in list'')), st)
                 | Some test_stats \<Rightarrow>
                     (case env_eval env val test_stats of
                        Inl e \<Rightarrow> (Inl e, st)
                      | Inr b \<Rightarrow>
                          (Inr (),
                           st\<lparr>filter_list := filter_list st @
                                [\<lparr>f_field = field, f_comparison = ''eval'', f_value = val,
                                  f_index = None, f_native = NativeNone\<rparr>]\<rparr>)))
              else
                (case native_value_of env st field op_index val of
                   (Inl e, st') \<Rightarrow> (Inl e, st')
                 | (Inr (comparison, native_value), st') \<Rightarrow>
                     (case index_of field field_words of
                        None \<Rightarrow>
                          (Inl (ValueError (quoted field @ '' is not in list'')), st')
                      | Some field_index \<Rightarrow>
                          (case comparison of
                             None \<Rightarrow> (Inl UnboundLocalError, st')
                           | Some cmp \<Rightarrow>
                               (Inr (),
                                st'\<lparr>filter_list := filter_list st' @
                                     [\<lparr>f_field = field, f_comparison = cmp, f_value = val,
                                       f_index = Some field_index,
                                       f_native = native_value\<rparr>]\<rparr>)))))"

text \<open>
  One turn of the loop of \<open>FileStats.passes_filters\<close>: whether the record passes this
  entry. An entry whose index or native value has not the type its comparison needs
  is a TypeError here; \<open>add_filter\<close> builds no such entry. A comparison string that
  no branch knows lets the record pass.
\<close>

definition passes_entry ::
  "environment \<Rightarrow> FileStats \<Rightarrow> filter_entry \<Rightarrow> error + bool" where
  "passes_entry env self e =
     (let cmp = f_comparison e in
      if cmp = ''eval'' then env_eval env (f_value e) self
      else if cmp \<in> set [''<'', ''>'', ''in'', ''not in'', ''~'', ''!~''] then
        (case f_index e of
           None \<Rightarrow> Inl TypeError
         | Some i \<Rightarrow>
             if length (stats self) \<le> i then Inl IndexError
             else (case (stats self ! i, f_native e) of
                     (IntVal v, NativeInt n) \<Rightarrow>
                       if cmp = ''<'' then Inr (v < n)
                       else if cmp = ''>'' then Inr (v > n)
                       else Inl TypeError
                   | (IntVal v, NativeList l) \<Rightarrow>
                       if cmp = ''in'' then Inr (v \<in> set l)
                       else if cmp = ''not in'' then Inr (v \<notin> set l)
                       else Inl TypeError
                   | (StrVal v, NativeRegex p) \<Rightarrow>
                       if cmp = ''~'' then Inr (env_re_search env p v)
                       else if cmp = ''!~'' then Inr (\<not> env_re_search env p v)
                       else Inl TypeError
                   | _ \<Rightarrow> Inl TypeError))
      else Inr True)"

text \<open>
  \<open>FileStats.passes_filters\<close>: the loop leaves with \<open>break\<close> at the first entry that
  the record fails, and an exception leaves the method. (The debug message printed
  for an excluded record is not modelled.)
\<close>

fun passes_filters :: "environment \<Rightarrow> filter_entry list \<Rightarrow> FileStats \<Rightarrow> error + bool" where
  "passes_filters env [] self = Inr True"
| "passes_filters env (e # es) self =
     (case passes_entry env self e of
        Inl err \<Rightarrow> Inl err
      | Inr False \<Rightarrow> Inr False
      | Inr True \<Rightarrow> passes_filters env es self)"

fun apply_filters_loop ::
  "environment \<Rightarrow> filter_entry list \<Rightarrow> FileStats list \<Rightarrow> error + FileStats list" where
  "apply_filters_loop env fl [] = Inr []"
| "apply_filters_loop env fl (s # statlist) =
     (case passes_filters env fl s of
        Inl err \<Rightarrow> Inl err
      | Inr b \<Rightarrow>
          (case apply_filters_loop env fl statlist of
             Inl err \<Rightarrow> Inl err
           | Inr newlist \<Rightarrow> Inr (if b then s # newlist else newlist)))"

definition apply_all_filters ::
  "environment \<Rightarrow> filter_entry list \<Rightarrow> FileStats list \<Rightarrow> error + FileStats list" where
  "apply_all_filters env fl statlist =
     (if fl = [] then Inr statlist else apply_filters_loop env fl statlist)"

section \<open>Sorting\<close>

text \<open>
  The values of a record are compared as Python 2 compares them: integers by value,
  strings byte by byte, and any integer before any string.
\<close>

instantiation pyval :: linorder
begin

fun less_eq_pyval :: "pyval \<Rightarrow> pyval \<Rightarrow> bool" where
  "less_eq_pyval (IntVal a) (IntVal b) = (a \<le> b)"
| "less_eq_pyval (IntVal a) (StrVal b) = True"
| "less_eq_pyval (StrVal a) (IntVal b) = False"
| "less_eq_pyval (StrVal a) (StrVal b) = (a \<le> b)"

definition less_pyval :: "pyval \<Rightarrow> pyval \<Rightarrow> bool" where
  "less_pyval x y = (x \<le> y \<and> \<not> y \<le> x)"

instance
proof
  fix x y z :: pyval
  show "(x < y) = (x \<le> y \<and> \<not> y \<le> x)" by (simp add: less_pyval_def)
  show "x \<le> x" by (cases x) simp_all
  show "x \<le> y \<Longrightarrow> y \<le> z \<Longrightarrow> x \<le> z"
    by (cases x; cases y; cases z) auto
  show "x \<le> y \<Longrightarrow> y \<le> x \<Longrightarrow> x = y"
    by (cases x; cases y) auto
  show "x \<le> y \<or> y \<le> x"
    by (cases x; cases y) auto
qed

end

text \<open>
  \<open>list.sort(key=..., reverse=...)\<close>: a stable sort; with \<open>reverse\<close> the list is
  reversed, sorted and reversed again, so that equal keys keep their order.
\<close>

definition py_sort :: "('a \<Rightarrow> pyval) \<Rightarrow> bool \<Rightarrow> 'a list \<Rightarrow> 'a list" where
  "py_sort key reverse xs =
     (if reverse then rev (sort_key key (rev xs)) else sort_key key xs)"

text \<open>
  One pass of the loop of \<open>sort_stats\<close>. \<open>itemgetter(field_letter)\<close> goes through
  \<open>FileStats.__getitem__\<close>, which looks the letter up in \<open>field_letters\<close> and raises
  ValueError for an unknown one, as soon as there is a record to take the key of.
\<close>

definition sort_pass :: "char \<Rightarrow> bool \<Rightarrow> FileStats list \<Rightarrow> error + FileStats list" where
  "sort_pass field_letter reverse_sort statlist =
     (if statlist = [] then Inr []
      else case index_of field_letter field_letters of
             None \<Rightarrow> Inl (ValueError (quoted [field_letter] @ '' is not in list''))
           | Some i \<Rightarrow> Inr (py_sort (\<lambda>self. stats self ! i) reverse_sort statlist))"

fun sort_passes :: "string \<Rightarrow> bool \<Rightarrow> FileStats list \<Rightarrow> error + FileStats list" where
  "sort_passes [] reverse_sort statlist = Inr statlist"
| "sort_passes (c # cs) reverse_sort statlist =
     (case sort_pass c reverse_sort statlist of
        Inl e \<Rightarrow> Inl e
      | Inr statlist' \<Rightarrow> sort_passes cs reverse_sort statlist')"

text \<open>\<open>sort_stats\<close>, with \<open>OPTS.sort\<close> as an argument.\<close>

definition sort_stats :: "string \<Rightarrow> FileStats list \<Rightarrow> error + FileStats list" where
  "sort_stats opts_sort statlist =
     (case arg_has_plus opts_sort of
        Inl e \<Rightarrow> Inl e
      | Inr (sort_fields, reverse_sort) \<Rightarrow>
          sort_passes (rev sort_fields) reverse_sort statlist)"

text \<open>
  What \<open>main\<close> does to \<open>OPTS.sort\<close>: an absent (empty) value is \<open>'n'\<close>, and \<open>'n'\<close> is
  appended when the letter does not occur.
\<close>

definition main_sort :: "string \<Rightarrow> string" where
  "main_sort opts_sort =
     (let sort1 = (if opts_sort = [] then ''n'' else opts_sort)
      in if CHR ''n'' \<notin> set sort1 then sort1 @ ''n'' else sort1)"

section \<open>Traversal\<close>

text \<open>The options of \<open>OPTS\<close> that the traversal reads.\<close>

record options =
  opt_all :: bool
  opt_recursive :: bool
  opt_directory :: bool
  opt_merge :: bool
  opt_quiet :: bool
  opt_sort :: string

text \<open>
  What the program writes: a message on stderr, the \<open>Directory\<close> header of a group,
  the line of one record (\<open>stats.printout\<close>), the totals of a group and the grand
  total. The text of a line, the formatting of byte counts and the optional
  \<open>OPTS.os_command\<close> belong to the display layer and are not modelled.
\<close>

datatype event =
    Stderr string
  | Directory string
  | Row FileStats
  | Total nat int
  | GrandTotal nat int

text \<open>The global counters and the output so far.\<close>

record run =
  TOTFILES :: nat
  TOTSIZE :: int
  GTOTFILES :: nat
  GTOTSIZE :: int
  printed :: "event list"

text \<open>
  The file system as the traversal sees it. For one path: what \<open>FileStats(path)\<close>
  gives (the message of \<open>os.error\<close>, or the record), \<open>os.path.isdir\<close>,
  \<open>os.path.islink\<close>, and \<open>os.listdir\<close> (the message of \<open>os.error\<close>, or the names with
  their own nodes).
\<close>

datatype fsnode =
  FsNode (fs_lstat: "string + FileStats") (fs_isdir: bool) (fs_islink: bool)
         (fs_listdir_error: "string option") (fs_entries: "(string \<times> fsnode) list")

text \<open>\<open>os.path.join(a, b)\<close> and \<open>os.path.dirname(p)\<close> of \<open>posixpath\<close>.\<close>

definition py_join :: "string \<Rightarrow> string \<Rightarrow> string" where
  "py_join a b =
     (if b \<noteq> [] \<and> hd b = CHR ''/'' then b
      else if a = [] \<or> last a = CHR ''/'' then a @ b
      else a @ ''/'' @ b)"

definition py_dirname :: "string \<Rightarrow> string" where
  "py_dirname p =
     (let head = rev (dropWhile (\<lambda>c. c \<noteq> CHR ''/'') (rev p))
      in if head \<noteq> [] \<and> \<not> list_all (\<lambda>c. c = CHR ''/'') head
         then rev (dropWhile (\<lambda>c. c = CHR ''/'') (rev head))
         else head)"

definition emit :: "event list \<Rightarrow> run \<Rightarrow> run" where
  "emit es r = r\<lparr>printed := printed r @ es\<rparr>"

text \<open>
  \<open>stat_files\<close>: a path whose \<open>FileStats\<close> has \<open>error\<close> set gives a line on stderr
  and no record.
\<close>

fun stat_files :: "(string \<times> fsnode) list \<Rightarrow> run \<Rightarrow> FileStats list \<times> run" where
  "stat_files [] r = ([], r)"
| "stat_files ((filepath, node) # rest) r =
     (case fs_lstat node of
        Inl msg \<Rightarrow>
          stat_files rest
            (emit [Stderr (''Cannot stat file '' @ filepath @ '': '' @ msg @ [CHR 0x0A])] r)
      | Inr st \<Rightarrow>
          (case stat_files rest r of (statlist, r') \<Rightarrow> (st # statlist, r')))"

text \<open>\<open>display_statlist\<close>: filter, sort, print, count.\<close>

definition display_statlist ::
  "options \<Rightarrow> environment \<Rightarrow> filter_entry list \<Rightarrow> FileStats list \<Rightarrow> run \<Rightarrow> error + run" where
  "display_statlist opts env fl statlist0 r =
     (case apply_all_filters env fl statlist0 of
        Inl e \<Rightarrow> Inl e
      | Inr filtered \<Rightarrow>
          (case sort_stats (opt_sort opts) filtered of
             Inl e \<Rightarrow> Inl e
           | Inr statlist \<Rightarrow>
               (let header =
                      (if statlist \<noteq> [] \<and> \<not> opt_quiet opts \<and> \<not> opt_merge opts
                       then [Directory (if st_path (hd statlist) = [] then ''.''
                                        else st_path (hd statlist))]
                       else []);
                    totfiles = length statlist;
                    totsize = sum_list (map st_size statlist);
                    shown = (statlist \<noteq> [] \<and> \<not> opt_quiet opts)
                in Inr (r\<lparr>TOTFILES := totfiles,
                          TOTSIZE := totsize,
                          GTOTFILES := (if shown then GTOTFILES r + totfiles else GTOTFILES r),
                          GTOTSIZE := (if shown then GTOTSIZE r + totsize else GTOTSIZE r),
                          printed := printed r @ header @ map Row statlist
                                    @ (if shown then [Total totfiles totsize] else [])\<rparr>))))"

text \<open>
  \<open>stat_directory\<close>. The names of \<open>os.listdir\<close> are not empty, so \<open>f[0] != '.'\<close>
  is a test on the first character. Without \<open>--merge\<close> the records of the directory
  are displayed at once and not returned; with \<open>--recursive\<close> the subdirectories
  that are no symbolic links follow, in the order of the listing. An exception of
  \<open>display_statlist\<close> ends the run (what was printed before is not kept).
\<close>

function stat_directory ::
  "options \<Rightarrow> environment \<Rightarrow> filter_entry list \<Rightarrow> string \<Rightarrow> fsnode \<Rightarrow> run
     \<Rightarrow> error + (FileStats list \<times> run)" where
  "stat_directory opts env fl path (FsNode st isdir islink listdir_error entries) r =
     (case listdir_error of
        Some msg \<Rightarrow>
          Inr ([], emit [Stderr (''Unable to access '' @ path @ '': '' @ msg @ [CHR 0x0A])] r)
      | None \<Rightarrow>
          (let files = (if opt_all opts then entries
                        else filter (\<lambda>fn. take 1 (fst fn) \<noteq> ''.'') entries)
           in if files = [] then Inr ([], r)
              else
                (let filepaths = map (\<lambda>fn. (py_join path (fst fn), snd fn)) files;
                     stated = stat_files filepaths r;
                     displayed =
                       (if \<not> opt_merge opts
                        then (case display_statlist opts env fl (fst stated) (snd stated) of
                                Inl e \<Rightarrow> Inl e
                              | Inr r' \<Rightarrow> Inr ([], r'))
                        else Inr stated)
                 in if opt_recursive opts
                    then fold (\<lambda>d acc.
                                 case acc of
                                   Inl e \<Rightarrow> Inl e
                                 | Inr (statlist, r1) \<Rightarrow>
                                     (case stat_directory opts env fl (fst d) (snd d) r1 of
                                        Inl e \<Rightarrow> Inl e
                                      | Inr (found, r2) \<Rightarrow> Inr (statlist @ found, r2)))
                              (filter (\<lambda>d. fs_isdir (snd d) \<and> \<not> fs_islink (snd d)) filepaths)
                              displayed
                    else displayed)))"
  by pat_completeness auto
termination
proof (relation "measure (\<lambda>(opts, env, fl, path, node, r). size node)")
  show "wf (measure (\<lambda>(opts, env, fl, path, node, r). size node))" by simp
next
  fix opts :: options and env :: environment and fl :: "filter_entry list"
    and path :: string and st :: "string + FileStats" and isdir islink :: bool
    and listdir_error :: "string option" and entries :: "(string \<times> fsnode) list"
    and r :: run and files filepaths stated displayed
    and d :: "string \<times> fsnode" and acc statlist_r statlist and r1 :: run
  assume files: "files = (if opt_all opts then entries
                          else filter (\<lambda>fn. take 1 (fst fn) \<noteq> ''.'') entries)"
    and filepaths: "filepaths = map (\<lambda>fn. (py_join path (fst fn), snd fn)) files"
    and d: "d \<in> set (filter (\<lambda>d. fs_isdir (snd d) \<and> \<not> fs_islink (snd d)) filepaths)"
  from d filepaths obtain fn where "fn \<in> set files" and "snd d = snd fn" by auto
  with files have "fn \<in> set entries" by (auto split: if_splits)
  then have "size (snd fn) < Suc (size_list (size_prod (\<lambda>x. 0) size) entries)"
    by (induction entries) (auto simp: less_Suc_eq_le)
  with \<open>snd d = snd fn\<close>
  show "((opts, env, fl, fst d, snd d, r1),
         (opts, env, fl, path, FsNode st isdir islink listdir_error entries, r))
        \<in> measure (\<lambda>(opts, env, fl, path, node, r). size node)"
    by simp
qed

text \<open>
  The loop of \<open>show_paths\<close> over the paths of the command line, each with its node:
  the list collected so far, \<open>last_dir\<close> and the counters are carried along.
\<close>

fun show_paths_loop ::
  "options \<Rightarrow> environment \<Rightarrow> filter_entry list \<Rightarrow> (string \<times> fsnode) list
     \<Rightarrow> FileStats list \<Rightarrow> string option \<Rightarrow> run \<Rightarrow> error + (FileStats list \<times> run)" where
  "show_paths_loop opts env fl [] statlist last_dir r = Inr (statlist, r)"
| "show_paths_loop opts env fl ((path, node) # rest) statlist last_dir r =
     (let this_dir = py_dirname path;
          flushed =
            (if last_dir \<noteq> None \<and> Some this_dir \<noteq> last_dir \<and> \<not> opt_merge opts
             then (case display_statlist opts env fl statlist r of
                     Inl e \<Rightarrow> Inl e
                   | Inr r' \<Rightarrow> Inr ([], r'))
             else Inr (statlist, r))
      in case flushed of
           Inl e \<Rightarrow> Inl e
         | Inr (statlist1, r1) \<Rightarrow>
             (case (if fs_isdir node \<and> \<not> opt_directory opts
                    then stat_directory opts env fl path node r1
                    else Inr (stat_files [(path, node)] r1)) of
                Inl e \<Rightarrow> Inl e
              | Inr (found, r2) \<Rightarrow>
                  show_paths_loop opts env fl rest (statlist1 @ found) (Some this_dir) r2))"

definition show_paths ::
  "options \<Rightarrow> environment \<Rightarrow> filter_entry list \<Rightarrow> (string \<times> fsnode) list \<Rightarrow> run
     \<Rightarrow> error + run" where
  "show_paths opts env fl paths r =
     (case show_paths_loop opts env fl paths [] None r of
        Inl e \<Rightarrow> Inl e
      | Inr (statlist, r1) \<Rightarrow>
          (case (if statlist \<noteq> [] then display_statlist opts env fl statlist r1
                 else Inr r1) of
             Inl e \<Rightarrow> Inl e
           | Inr r2 \<Rightarrow>
               Inr (if TOTFILES r2 \<noteq> GTOTFILES r2 \<and> \<not> opt_quiet opts
                    then emit [GrandTotal (GTOTFILES r2) (GTOTSIZE r2)] r2
                    else r2)))"

section \<open>Registration of the filters and \<open>main\<close>\<close>

text \<open>
  The \<open>type=\<close> functions that argparse calls on the value of a filter option, in the
  order of the command line. Each registers the filter at once.
\<close>

definition datetime_arg ::
  "string \<Rightarrow> environment \<Rightarrow> state \<Rightarrow> string \<Rightarrow> (error + unit) \<times> state" where
  "datetime_arg field env st arg =
     (case add_filter env st field arg of
        (Inl (ValueError m), st') \<Rightarrow>
          (Inl (ArgumentTypeError (arg @ '' is not a valid DATETIME value'')), st')
      | other \<Rightarrow> other)"

definition mtime_arg where "mtime_arg = datetime_arg ''mtime''"
definition atime_arg where "atime_arg = datetime_arg ''atime''"
definition ctime_arg where "ctime_arg = datetime_arg ''ctime''"

text \<open>\<open>size_arg\<close>, \<open>user_list_arg\<close>, \<open>group_list_arg\<close>, \<open>exclude_arg\<close>.\<close>

definition message_arg ::
  "string \<Rightarrow> environment \<Rightarrow> state \<Rightarrow> string \<Rightarrow> (error + unit) \<times> state" where
  "message_arg field env st arg =
     (case add_filter env st field arg of
        (Inl (ValueError m), st') \<Rightarrow> (Inl (ArgumentTypeError m), st')
      | other \<Rightarrow> other)"

definition size_arg where "size_arg = message_arg ''size''"
definition user_list_arg where "user_list_arg = message_arg ''uid''"
definition group_list_arg where "group_list_arg = message_arg ''gid''"
definition exclude_arg where "exclude_arg = message_arg ''Typecode''"

text \<open>\<open>regex_arg\<close>, \<open>name_arg\<close>, \<open>path_arg\<close>.\<close>

definition re_arg ::
  "string \<Rightarrow> environment \<Rightarrow> state \<Rightarrow> string \<Rightarrow> (error + unit) \<times> state" where
  "re_arg field env st arg =
     (case add_filter env st field arg of
        (Inl (ReError m), st') \<Rightarrow>
          (Inl (ArgumentTypeError
                  (quoted arg @ '' is not a valid regular expression: '' @ m)), st')
      | other \<Rightarrow> other)"

definition regex_arg where "regex_arg = re_arg ''filepath''"
definition name_arg where "name_arg = re_arg ''name''"
definition path_arg where "path_arg = re_arg ''path''"

definition python_expression ::
  "environment \<Rightarrow> state \<Rightarrow> string \<Rightarrow> (error + unit) \<times> state" where
  "python_expression env st fexp =
     (case add_filter env st ''python'' fexp of
        (Inl SyntaxError, st') \<Rightarrow>
          (Inl (ArgumentTypeError (''invalid Python expression: '' @ fexp)), st')
      | (Inl (ValueError m), st') \<Rightarrow> (Inl (ArgumentTypeError m), st')
      | (Inl (NameError m), st') \<Rightarrow> (Inl (ArgumentTypeError m), st')
      | other \<Rightarrow> other)"

text \<open>The filter options of \<open>parse_command_line\<close> and their \<open>type=\<close> functions.\<close>

datatype filter_option =
    Accessed | Created | Modified | Exclude | Filter | Group | Name | Path | Regex
  | Size | User

fun type_function ::
  "filter_option \<Rightarrow> environment \<Rightarrow> state \<Rightarrow> string \<Rightarrow> (error + unit) \<times> state" where
  "type_function Accessed = atime_arg"
| "type_function Created = ctime_arg"
| "type_function Modified = mtime_arg"
| "type_function Exclude = exclude_arg"
| "type_function Filter = python_expression"
| "type_function Group = group_list_arg"
| "type_function Name = name_arg"
| "type_function Path = path_arg"
| "type_function Regex = regex_arg"
| "type_function Size = size_arg"
| "type_function User = user_list_arg"

text \<open>
  The part of \<open>parse_command_line\<close> that registers filters: the options are taken
  from left to right, each with the clock of its own moment, and the first exception
  ends the parsing. In lsf.py argparse reports an ArgumentTypeError, a ValueError or
  a TypeError of a \<open>type=\<close> function as a usage error and exits with status 2; here
  the exception itself is the result.
\<close>

fun parse_filters ::
  "environment \<Rightarrow> state \<Rightarrow> (rat \<times> filter_option \<times> string) list \<Rightarrow> (error + unit) \<times> state" where
  "parse_filters env st [] = (Inr (), st)"
| "parse_filters env st ((now, opt, arg) # rest) =
     (case type_function opt (env\<lparr>env_now := now\<rparr>) st arg of
        (Inl e, st') \<Rightarrow> (Inl e, st')
      | (Inr u, st') \<Rightarrow> parse_filters env st' rest)"

text \<open>The counters and the output when the program starts.\<close>

definition run0 :: run where
  "run0 = \<lparr>TOTFILES = 0, TOTSIZE = 0, GTOTFILES = 0, GTOTSIZE = 0, printed = []\<rparr>"

text \<open>
  \<open>main\<close>: the command line is parsed, which registers the filters; only then the
  options are adjusted and \<open>show_paths\<close> walks the paths (the caller gives
  \<open>os.curdir\<close> when the command line has none).
\<close>

definition main ::
  "environment \<Rightarrow> state \<Rightarrow> options \<Rightarrow> (rat \<times> filter_option \<times> string) list
     \<Rightarrow> (string \<times> fsnode) list \<Rightarrow> error + run" where
  "main env st opts filter_args paths =
     (case parse_filters env st filter_args of
        (Inl e, st') \<Rightarrow> Inl e
      | (Inr u, st') \<Rightarrow>
          show_paths
            (opts\<lparr>opt_quiet := (opt_directory opts \<or> opt_quiet opts),
                  opt_sort := main_sort (opt_sort opts)\<rparr>)
            env (filter_list st') paths run0)"

section \<open>Notions used in the statements\<close>

text \<open>
  A \<open>known_strings\<close> dictionary of FileSize as the program can have built it: every
  stored value is what parsing its key gives.
\<close>

definition size_cache_ok :: "(string \<rightharpoonup> int) \<Rightarrow> bool" where
  "size_cache_ok known = (\<forall>s v. known s = Some v \<longrightarrow> FileSize_parse s = Inr v)"

text \<open>
  Two examples of what stands behind \<open>strptime\<close> and \<open>mktime\<close>: one that rejects
  every string, and one (a process in UTC) that knows two dates.
\<close>

definition strptime_rejects :: "string \<Rightarrow> string \<Rightarrow> error + int" where
  "strptime_rejects s fmt = Inl (ValueError ''time data does not match format'')"

definition strptime_utc_example :: "string \<Rightarrow> string \<Rightarrow> error + int" where
  "strptime_utc_example s fmt =
     (if s = ''Jul 22 2012'' \<and> fmt = ''%b %d %Y'' then Inr 1342915200
      else if s = ''Jul 22 2012 16:37'' \<and> fmt = ''%b %d %Y %H:%M'' then Inr 1342975020
      else Inl (ValueError ''time data does not match format''))"

text \<open>The format that \<open>Unixtime.str_to_secs\<close> hands to \<open>strptime\<close> for a string.\<close>

definition time_format_of :: "string \<Rightarrow> string" where
  "time_format_of time_str =
     (if length (split_ws time_str) = 3 then ''%b %d %Y'' else ''%b %d %Y %H:%M'')"

text \<open>
  The \<open>known_strings\<close> of Unixtime after a sequence of further calls of
  \<open>Unixtime.str_to_secs\<close>, each with its own clock, surroundings and string.
\<close>

fun str_to_secs_calls ::
  "(rat \<times> (string \<Rightarrow> string \<Rightarrow> error + int) \<times> string) list \<Rightarrow> (string \<rightharpoonup> int)
     \<Rightarrow> (string \<rightharpoonup> int)" where
  "str_to_secs_calls [] known = known"
| "str_to_secs_calls ((now, strp, s) # calls) known =
     str_to_secs_calls calls (snd (Unixtime_str_to_secs now strp known s))"

text \<open>
  The six comparison operators, what each means on integers, and the method of each
  class that implements it.
\<close>

datatype cmp_op = LT | GT | LE | GE | EQ | NE

fun compare_op :: "cmp_op \<Rightarrow> int \<Rightarrow> int \<Rightarrow> bool" where
  "compare_op LT a b = (a < b)"
| "compare_op GT a b = (a > b)"
| "compare_op LE a b = (a \<le> b)"
| "compare_op GE a b = (a \<ge> b)"
| "compare_op EQ a b = (a = b)"
| "compare_op NE a b = (a \<noteq> b)"

fun FileSize_method ::
  "cmp_op \<Rightarrow> (string \<rightharpoonup> int) \<Rightarrow> int \<Rightarrow> operand \<Rightarrow> (error + bool) \<times> (string \<rightharpoonup> int)" where
  "FileSize_method LT = FileSize_lt"
| "FileSize_method GT = FileSize_gt"
| "FileSize_method LE = FileSize_le"
| "FileSize_method GE = FileSize_ge"
| "FileSize_method EQ = FileSize_eq"
| "FileSize_method NE = FileSize_ne"

fun Unixtime_method ::
  "cmp_op \<Rightarrow> rat \<Rightarrow> (string \<Rightarrow> string \<Rightarrow> error + int) \<Rightarrow> (string \<rightharpoonup> int) \<Rightarrow> int \<Rightarrow> operand
     \<Rightarrow> (error + bool) \<times> (string \<rightharpoonup> int)" where
  "Unixtime_method LT = Unixtime_lt"
| "Unixtime_method GT = Unixtime_gt"
| "Unixtime_method LE = Unixtime_le"
| "Unixtime_method GE = Unixtime_ge"
| "Unixtime_method EQ = Unixtime_eq"
| "Unixtime_method NE = Unixtime_ne"

fun Uid_method ::
  "cmp_op \<Rightarrow> bool \<Rightarrow> (string \<rightharpoonup> int) \<Rightarrow> (string \<rightharpoonup> int) \<Rightarrow> int \<Rightarrow> operand
     \<Rightarrow> (error + bool) \<times> (string \<rightharpoonup> int)" where
  "Uid_method LT = Uid_lt"
| "Uid_method GT = Uid_gt"
| "Uid_method LE = Uid_le"
| "Uid_method GE = Uid_ge"
| "Uid_method EQ = Uid_eq"
| "Uid_method NE = Uid_ne"

fun Gid_method ::
  "cmp_op \<Rightarrow> bool \<Rightarrow> (string \<rightharpoonup> int) \<Rightarrow> (string \<rightharpoonup> int) \<Rightarrow> int \<Rightarrow> operand
     \<Rightarrow> (error + bool) \<times> (string \<rightharpoonup> int)" where
  "Gid_method LT = Gid_lt"
| "Gid_method GT = Gid_gt"
| "Gid_method LE = Gid_le"
| "Gid_method GE = Gid_ge"
| "Gid_method EQ = Gid_eq"
| "Gid_method NE = Gid_ne"

text \<open>
  Examples: the state of a program that has just started, surroundings on a Unix
  system whose evaluator raises NameError on every expression and whose
  regular-expression search is equality, and a record with a given name, size and
  type code.
\<close>

definition initial_state :: state where
  "initial_state =
     \<lparr>size_known_strings = Map.empty, time_known_strings = Map.empty,
      known_usernames = Map.empty, known_groups = Map.empty, filter_list = []\<rparr>"

definition example_env :: environment where
  "example_env =
     \<lparr>env_now = 1700000000, env_strptime_mktime = strptime_utc_example,
      env_windows = False, env_getpwnam = [''root'' \<mapsto> 0], env_getgrnam = [''root'' \<mapsto> 0],
      env_re_error = (\<lambda>p. None), env_re_search = (\<lambda>p s. p = s),
      env_eval = (\<lambda>e r. Inl (NameError e)), env_argv0 = None\<rparr>"

definition example_stats :: "string \<Rightarrow> int \<Rightarrow> int \<Rightarrow> FileStats" where
  "example_stats nm sz tc =
     \<lparr>st_Mode = tc + 420, st_inode = 1, st_dev = 1, st_Nlink = 1, st_uid = 0, st_gid = 0,
      st_size = sz, st_atime = 0, st_mtime = 0, st_ctime = 0, st_path = ''dir'',
      st_name = nm, st_filepath = ''dir/'' @ nm, st_target = [], st_Typecode = tc\<rparr>"

text \<open>The entries that \<open>add_filter\<close> appends for the operands of the claims.\<close>

definition size_entry :: "string \<Rightarrow> int \<Rightarrow> filter_entry" where
  "size_entry cmp n =
     \<lparr>f_field = ''size'', f_comparison = cmp, f_value = ''1k'', f_index = Some 6,
      f_native = NativeInt n\<rparr>"

definition type_entry :: "string \<Rightarrow> string \<Rightarrow> int list \<Rightarrow> filter_entry" where
  "type_entry cmp val codes =
     \<lparr>f_field = ''Typecode'', f_comparison = cmp, f_value = val, f_index = Some 14,
      f_native = NativeList codes\<rparr>"

definition eval_entry :: "string \<Rightarrow> filter_entry" where
  "eval_entry expr =
     \<lparr>f_field = ''python'', f_comparison = ''eval'', f_value = expr, f_index = None,
      f_native = NativeNone\<rparr>"

text \<open>
  The key that a field letter takes of a record, the list of the keys of a list of
  letters (compared lexicographically, first letter first), and what it means for a
  list to be in ascending (or, reversed, descending) order of a key.
\<close>

definition letter_key :: "char \<Rightarrow> FileStats \<Rightarrow> pyval" where
  "letter_key c self =
     (case index_of c field_letters of Some i \<Rightarrow> stats self ! i | None \<Rightarrow> IntVal 0)"



text \<open>
  The records and the messages that \<open>stat_files\<close> produces for a list of paths, the
  records that a run has printed, and the header events.
\<close>

fun stat_records :: "(string \<times> fsnode) list \<Rightarrow> FileStats list" where
  "stat_records [] = []"
| "stat_records ((filepath, node) # rest) =
     (case fs_lstat node of
        Inl msg \<Rightarrow> stat_records rest
      | Inr st \<Rightarrow> st # stat_records rest)"

fun stat_errors :: "(string \<times> fsnode) list \<Rightarrow> event list" where
  "stat_errors [] = []"
| "stat_errors ((filepath, node) # rest) =
     (case fs_lstat node of
        Inl msg \<Rightarrow>
          Stderr (''Cannot stat file '' @ filepath @ '': '' @ msg @ [CHR 0x0A])
            # stat_errors rest
      | Inr st \<Rightarrow> stat_errors rest)"

fun rows :: "event list \<Rightarrow> FileStats list" where
  "rows [] = []"
| "rows (Row r # es) = r # rows es"
| "rows (e # es) = rows es"

fun is_Directory :: "event \<Rightarrow> bool" where
  "is_Directory (Directory p) = True"
| "is_Directory e = False"

text \<open>An example of a flat directory: two files, a hidden file, and a name that
  cannot be stat'ed.\<close>

definition example_file :: "string \<Rightarrow> int \<Rightarrow> string \<times> fsnode" where
  "example_file nm sz =
     (nm, FsNode (Inr (example_stats nm sz S_IFREG)) False False (Some ''Not a directory'') [])"

definition example_dir :: fsnode where
  "example_dir =
     FsNode (Inr (example_stats ''dir'' 4096 S_IFDIR)) True False None
       [example_file ''b'' 5, example_file ''a'' 5, example_file ''.hidden'' 7,
        (''gone'', FsNode (Inl ''No such file or directory'') False False
                   (Some ''No such file or directory'') []),
        example_file ''z'' 2000]"

definition example_options :: options where
  "example_options =
     \<lparr>opt_all = False, opt_recursive = False, opt_directory = False, opt_merge = False,
      opt_quiet = False, opt_sort = ''s''\<rparr>"


section \<open>Properties\<close>

subsection \<open>Arithmetic helpers\<close>

lemma pow2i_eq: "0 \<le> n \<Longrightarrow> pow2i n = 2 ^ nat n"
proof (induction n rule: pow2i.induct)
  case (1 n)
  show ?case
  proof (cases "n \<le> 0")
    case True
    with 1 show ?thesis by (simp add: pow2i.simps)
  next
    case False
    then have h: "pow2i (n div 2) = 2 ^ nat (n div 2)" using 1 by simp
    show ?thesis
    proof (cases "even n")
      case True
      then obtain k where k: "n = 2 * k" by (elim evenE)
      with False have "0 < k" by simp
      then have "nat n = nat k + nat k" using k by simp
      then show ?thesis using False True h k
        by (subst pow2i.simps) (simp add: sqr_def power_add)
    next
      case odd: False
      then obtain k where k: "n = 2 * k + 1" by (elim oddE)
      with False have "0 \<le> k" by simp
      then have "nat n = Suc (nat k + nat k)" using k by simp
      then show ?thesis using False odd h k
        by (subst pow2i.simps) (simp add: sqr_def power_add)
    qed
  qed
qed

lemma round_double_not_NaN: "round_double q \<noteq> NaN"
  by (simp add: round_double_def Let_def)

subsection \<open>Exact float operations\<close>

text \<open>
  A rational \<open>m * 2^t\<close> with \<open>|m| < 2^53\<close>, \<open>t \<ge> -1074\<close> and \<open>|m * 2^t| < 2^1024\<close> is a
  double: rounding leaves it as it is. A positive double below \<open>2^53\<close> has this shape
  with \<open>t \<le> 0\<close>, so that subtracting a non-negative integer below it is exact.
\<close>

lemma pow2_powi: "pow2 e = 2 powi e"
proof (cases "0 \<le> e")
  case True
  then show ?thesis by (simp add: pow2_def pow2i_eq power_int_def)
next
  case False
  then have "0 \<le> - e" by simp
  then have "pow2i (- e) = 2 ^ nat (- e)" by (rule pow2i_eq)
  then show ?thesis using False by (simp add: pow2_def power_int_def inverse_eq_divide power_one_over)
qed

lemma bitlen_bounds:
  "0 < n \<Longrightarrow> 2 ^ nat (bitlen n - 1) \<le> n \<and> n < 2 ^ nat (bitlen n) \<and> 0 < bitlen n"
proof (induction n rule: bitlen.induct)
  case (1 n)
  show ?case
  proof (cases "n = 1")
    case True
    have "bitlen 1 = 1" by (simp add: bitlen.simps)
    then show ?thesis using True by simp
  next
    case False
    with "1.prems" have h: "0 < n div 2" "\<not> n \<le> 0" by simp_all
    let ?b = "bitlen (n div 2)"
    have IH: "2 ^ nat (?b - 1) \<le> n div 2" "n div 2 < 2 ^ nat ?b" "0 < ?b"
      using "1.IH"[OF h(2) h(1)] by simp_all
    have b: "bitlen n = 1 + ?b" using h(2) by (subst bitlen.simps) simp
    have n1: "nat (bitlen n - 1) = Suc (nat (?b - 1))" using IH(3) b by simp
    have n2: "nat (bitlen n) = Suc (nat ?b)" using IH(3) b by simp
    have "2 * 2 ^ nat (?b - 1) \<le> 2 * (n div 2)" using IH(1) by simp
    also have "\<dots> \<le> n" by simp
    finally have lo: "2 ^ nat (bitlen n - 1) \<le> n" by (simp add: n1)
    have "n < 2 * (n div 2) + 2" by presburger
    also have "\<dots> \<le> 2 * 2 ^ nat ?b" using IH(2) by simp
    finally have hi: "n < 2 ^ nat (bitlen n)" by (simp add: n2)
    show ?thesis using lo hi b IH(3) by simp
  qed
qed

lemma bitlen_powi:
  assumes "0 < n"
  shows "(2::rat) powi (bitlen n - 1) \<le> of_int n" "of_int n < (2::rat) powi (bitlen n)"
proof -
  note b = bitlen_bounds[OF assms]
  have "(2::rat) powi (bitlen n - 1) = 2 ^ nat (bitlen n - 1)"
    using b by (simp add: power_int_nonneg_exp)
  also have "\<dots> = of_int (2 ^ nat (bitlen n - 1))" by simp
  also have "\<dots> \<le> of_int n" using b by (simp only: of_int_le_iff)
  finally show "(2::rat) powi (bitlen n - 1) \<le> of_int n" .
  have "(of_int n :: rat) < of_int (2 ^ nat (bitlen n))" using b by (simp only: of_int_less_iff)
  also have "\<dots> = 2 ^ nat (bitlen n)" by simp
  also have "\<dots> = 2 powi (bitlen n)" using b by (simp add: power_int_nonneg_exp)
  finally show "of_int n < (2::rat) powi (bitlen n)" .
qed

lemma powi_quot: "(2::rat) powi a / 2 powi b = 2 powi (a - b)"
  by (simp add: power_int_diff)

lemma floor_log2_bounds:
  assumes "0 < a"
  shows "2 powi (floor_log2 a) \<le> a \<and> a < 2 powi (floor_log2 a + 1)"
proof -
  obtain p d where pd: "quotient_of a = (p, d)" by (cases "quotient_of a")
  have d: "0 < d" using pd by (rule quotient_of_denom_pos)
  have a: "a = of_int p / of_int d" using pd by (rule quotient_of_div)
  have p: "0 < p" using assms a d by (simp add: zero_less_divide_iff)
  let ?e0 = "bitlen p - bitlen d"
  note bp = bitlen_powi[OF p] and bd = bitlen_powi[OF d]
  have dpos: "(0::rat) < of_int d" using d by simp
  have "a < 2 powi (bitlen p) / of_int d"
    unfolding a using bp(2) dpos by (simp add: divide_strict_right_mono)
  also have "\<dots> \<le> 2 powi (bitlen p) / 2 powi (bitlen d - 1)"
    using bd(1) dpos by (intro divide_left_mono) (auto intro!: mult_pos_pos)
  also have "\<dots> = 2 powi (bitlen p - (bitlen d - 1))" by (rule powi_quot)
  also have "bitlen p - (bitlen d - 1) = ?e0 + 1" by simp
  finally have up: "a < 2 powi (?e0 + 1)" .
  have "?e0 - 1 = bitlen p - 1 - bitlen d" by simp
  then have "2 powi (?e0 - 1) = 2 powi (bitlen p - 1) / (2::rat) powi (bitlen d)"
    by (simp only: powi_quot)
  also have "\<dots> \<le> of_int p / 2 powi (bitlen d)"
    using bp(1) by (simp add: divide_right_mono)
  also have "\<dots> \<le> of_int p / of_int d"
    using bd(2) p dpos by (intro divide_left_mono) (auto intro!: mult_pos_pos)
  finally have lo: "2 powi (?e0 - 1) \<le> a" by (simp add: a)
  show ?thesis
  proof (cases "pow2 ?e0 \<le> a")
    case True
    then have "floor_log2 a = ?e0" by (simp add: floor_log2_def pd)
    then show ?thesis using True up by (simp add: pow2_powi)
  next
    case False
    then have "floor_log2 a = ?e0 - 1" by (simp add: floor_log2_def pd)
    then show ?thesis using False lo by (simp add: pow2_powi)
  qed
qed

lemma round_half_even_of_int: "round_half_even (of_int n) = n"
  by (simp add: round_half_even_def)

lemma powi_less_exp: "(2::rat) powi a < 2 powi b \<Longrightarrow> a < b"
proof (rule ccontr)
  assume l: "(2::rat) powi a < 2 powi b" and "\<not> a < b"
  then have "b \<le> a" by simp
  then have "(2::rat) powi b \<le> 2 powi a" by (rule power_int_increasing) simp
  with l show False by simp
qed

lemma round_double_exact:
  assumes q: "q = of_int m * 2 powi t0" and m: "\<bar>m\<bar> < 2 ^ 53" and t0: "- 1074 \<le> t0"
    and small: "\<bar>q\<bar> < 2 powi 1024"
  shows "round_double q = Fin q"
proof (cases "q = 0")
  case True
  then show ?thesis by (simp add: round_double_def)
next
  case False
  let ?a = "\<bar>q\<bar>"
  have apos: "0 < ?a" using False by simp
  have a: "?a = of_int \<bar>m\<bar> * 2 powi t0" by (simp add: q abs_mult)
  let ?e = "floor_log2 ?a"
  let ?t = "max (?e - 52) (- 1074)"
  note fl = floor_log2_bounds[OF apos]
  have "(of_int \<bar>m\<bar> :: rat) < of_int (2 ^ 53)" using m by (simp only: of_int_less_iff)
  then have "(of_int \<bar>m\<bar> :: rat) < 2 powi 53" by simp
  then have "?a < 2 powi 53 * 2 powi t0" unfolding a by (simp add: mult_strict_right_mono)
  also have "\<dots> = 2 powi (53 + t0)" by (simp add: power_int_add)
  finally have "2 powi ?e < (2::rat) powi (53 + t0)" using fl by simp
  then have "?e < 53 + t0" by (rule powi_less_exp)
  then have tle: "?t \<le> t0" using t0 by simp
  have "?a / 2 powi ?t = of_int \<bar>m\<bar> * (2 powi t0 / 2 powi ?t)" by (simp add: a)
  also have "\<dots> = of_int \<bar>m\<bar> * 2 powi (t0 - ?t)" by (simp only: powi_quot)
  also have "\<dots> = of_int \<bar>m\<bar> * 2 ^ nat (t0 - ?t)"
    using tle by (simp add: power_int_nonneg_exp)
  also have "\<dots> = of_int (\<bar>m\<bar> * 2 ^ nat (t0 - ?t))" by simp
  finally have quot: "?a / 2 powi ?t = of_int (\<bar>m\<bar> * 2 ^ nat (t0 - ?t))" .
  have "of_int (round_half_even (?a / 2 powi ?t)) * 2 powi ?t = ?a / 2 powi ?t * 2 powi ?t"
    by (simp only: quot round_half_even_of_int)
  also have "\<dots> = ?a" by simp
  finally have r: "of_int (round_half_even (?a / pow2 ?t)) * pow2 ?t = ?a"
    by (simp only: pow2_powi)
  have "\<not> pow2 1024 \<le> ?a" using small by (simp add: pow2_powi)
  then show ?thesis
    using False r by (auto simp: round_double_def Let_def)
qed

lemma double_decomposition:
  assumes rd: "round_double x = Fin x" and pos: "0 < x" and lt: "x < 2 ^ 53"
  shows "\<exists>m t. x = of_int m * 2 powi t \<and> 0 \<le> m \<and> m < 2 ^ 53 \<and> - 1074 \<le> t \<and> t \<le> 0"
proof -
  let ?e = "floor_log2 x"
  let ?t = "max (?e - 52) (- 1074)"
  let ?m = "round_half_even (x / pow2 ?t)"
  note fl = floor_log2_bounds[OF pos]
  have ax: "\<bar>x\<bar> = x" using pos by simp
  have nz: "x \<noteq> 0" and nneg: "\<not> x < 0" using pos by simp_all
  have "round_double x =
      (if pow2 1024 \<le> of_int ?m * pow2 ?t then PInf else Fin (of_int ?m * pow2 ?t))"
    unfolding round_double_def Let_def ax using nz nneg by simp
  with rd have "of_int ?m * pow2 ?t = x"
    by (simp split: if_splits)
  then have eq: "x = of_int ?m * 2 powi ?t" by (simp only: pow2_powi)
  have p: "(0::rat) < 2 powi ?t" by simp
  have "0 < of_int ?m * (2::rat) powi ?t" using pos eq by simp
  then have "(0::rat) < of_int ?m" using p by (simp add: zero_less_mult_iff)
  then have m0: "0 \<le> ?m" by simp
  have "(2::rat) powi ?e < 2 powi 53" using fl lt by simp
  then have e53: "?e < 53" by (rule powi_less_exp)
  then have t0: "?t \<le> 0" by simp
  have "?e + 1 \<le> 53 + ?t" by simp
  then have "(2::rat) powi (?e + 1) \<le> 2 powi (53 + ?t)"
    by (rule power_int_increasing) simp
  then have "x < 2 powi (53 + ?t)" using fl by simp
  also have "\<dots> = 2 powi 53 * 2 powi ?t" by (simp add: power_int_add)
  finally have "of_int ?m * 2 powi ?t < (2::rat) powi 53 * 2 powi ?t" using eq by simp
  then have "(of_int ?m :: rat) < 2 powi 53" using p by (simp only: mult_less_cancel_right_pos)
  then have "(of_int ?m :: rat) < of_int (2 ^ 53)" by simp
  then have m53: "?m < 2 ^ 53" by (simp only: of_int_less_iff)
  have "- 1074 \<le> ?t" by simp
  with eq m0 m53 t0 show ?thesis by blast
qed

lemma round_double_of_int:
  assumes "\<bar>n\<bar> < 2 ^ 53"
  shows "round_double (of_int n) = Fin (of_int n)"
proof (rule round_double_exact[where m = n and ?t0.0 = 0])
  show "(of_int n :: rat) = of_int n * 2 powi 0" by simp
  show "\<bar>n\<bar> < 2 ^ 53" by fact
  show "- 1074 \<le> (0::int)" by simp
  have "(of_int \<bar>n\<bar> :: rat) < of_int (2 ^ 53)" using assms by (simp only: of_int_less_iff)
  also have "\<dots> < 2 powi 1024" by simp
  finally show "\<bar>of_int n :: rat\<bar> < 2 powi 1024" by simp
qed

lemma fsub_int_exact:
  assumes rd: "round_double now = Fin now" and n0: "0 \<le> n" and le: "of_int n \<le> now"
    and lt: "now < 2 ^ 53"
  shows "fsub_int now n = Inr (Fin (now - of_int n))"
proof -
  have "(of_int n :: rat) < of_int (2 ^ 53)" using le lt by simp
  then have "n < 2 ^ 53" by (simp only: of_int_less_iff)
  then have "\<bar>n\<bar> < 2 ^ 53" using n0 by simp
  then have rn: "round_double (of_int n) = Fin (of_int n)" by (rule round_double_of_int)
  have "round_double (now - of_int n) = Fin (now - of_int n)"
  proof (cases "now = 0")
    case True
    then have "n = 0" using n0 le by simp
    with True show ?thesis by (simp add: round_double_def)
  next
    case False
    then have pos: "0 < now" using n0 le by (smt (verit) of_int_0_le_iff order_trans less_le)
    from double_decomposition[OF rd pos lt] obtain m t where
      x: "now = of_int m * 2 powi t" and m0: "0 \<le> m" and m53: "m < 2 ^ 53"
      and t1: "- 1074 \<le> t" and t0: "t \<le> 0" by blast
    let ?k = "(2::int) ^ nat (- t)"
    let ?m' = "m - n * ?k"
    have p: "(0::rat) < 2 powi t" by simp
    have "(of_int ?k :: rat) * 2 powi t = 2 powi (- t) * 2 powi t"
      using t0 by (simp add: power_int_def)
    also have "\<dots> = 1" by (simp add: power_int_minus)
    finally have k: "(of_int ?k :: rat) * 2 powi t = 1" .
    have "of_int ?m' * (2::rat) powi t = of_int m * 2 powi t - of_int n * (of_int ?k * 2 powi t)"
      by (simp only: of_int_diff of_int_mult left_diff_distrib mult.assoc)
    also have "\<dots> = now - of_int n" by (simp only: k x mult_1_right)
    finally have q: "now - of_int n = of_int ?m' * 2 powi t" by simp
    have "0 \<le> of_int ?m' * (2::rat) powi t" using le q by simp
    then have "(0::rat) \<le> of_int ?m'" using p by (simp only: zero_le_mult_iff) auto
    then have m'0: "0 \<le> ?m'" by (simp only: of_int_0_le_iff)
    have "0 \<le> n * ?k" using n0 by simp
    then have "?m' \<le> m" by simp
    then have b: "\<bar>?m'\<bar> < 2 ^ 53" using m'0 m53 by simp
    have "\<bar>now - of_int n\<bar> \<le> now" using le n0 by simp
    also have "\<dots> < 2 powi 53" using lt by simp
    also have "\<dots> < (2::rat) powi 1024" by simp
    finally have s: "\<bar>now - of_int n\<bar> < 2 powi 1024" .
    show ?thesis by (rule round_double_exact[OF q b t1 s])
  qed
  then show ?thesis by (simp add: fsub_int_def rn)
qed

lemma int_of_fsub_int:
  assumes "round_double now = Fin now" and "0 \<le> n" and "of_int n \<le> now" and "now < 2 ^ 53"
  shows "(case fsub_int now n of Inl e \<Rightarrow> Inl e | Inr f \<Rightarrow> py_int_of_float f)
         = Inr (\<lfloor>now\<rfloor> - n)"
proof -
  have "\<lfloor>now - of_int n\<rfloor> = \<lfloor>now\<rfloor> - n" by simp
  then show ?thesis
    using assms by (simp add: fsub_int_exact trunc_rat_def)
qed

subsection \<open>Float literals\<close>

lemma FileSize_from_string_fst:
  "size_cache_ok known \<Longrightarrow> fst (FileSize_from_string known s) = FileSize_parse s"
  by (auto simp: FileSize_from_string_def size_cache_ok_def split: option.splits sum.splits)

lemma FileSize_from_string_snd:
  "size_cache_ok known \<Longrightarrow> size_cache_ok (snd (FileSize_from_string known s))"
  by (auto simp: FileSize_from_string_def size_cache_ok_def split: option.splits sum.splits)

lemma strip_snoc: "\<not> is_space c \<Longrightarrow> \<exists>pre. strip (s @ [c]) = pre @ [c]"
proof -
  assume c: "\<not> is_space c"
  have "dropWhile is_space (s @ [c]) \<noteq> []" using c
    by (metis dropWhile_eq_Nil_conv in_set_conv_decomp)
  moreover have "last (dropWhile is_space (s @ [c])) = c"
    using c by (induction s) auto
  ultimately obtain pre where p: "dropWhile is_space (s @ [c]) = pre @ [c]"
    by (metis append_butlast_last_id)
  then show ?thesis using c by (simp add: strip_def)
qed

lemma take_sign_snoc:
  "c \<noteq> CHR ''-'' \<Longrightarrow> c \<noteq> CHR ''+'' \<Longrightarrow> \<exists>neg pre. take_sign (s @ [c]) = (neg, pre @ [c])"
  by (cases s) (auto simp: take_sign_def)

lemma dropWhile_snoc_keep:
  "\<not> P c \<Longrightarrow> \<exists>pre. dropWhile P (s @ [c]) = pre @ [c]"
  by (induction s) auto

lemma parse_exponent_snoc:
  assumes "\<not> is_digit c" "c \<noteq> CHR ''e''" "c \<noteq> CHR ''E''" "c \<noteq> CHR ''-''" "c \<noteq> CHR ''+''"
  shows "parse_exponent (s @ [c]) = None"
proof (cases s)
  case Nil
  then show ?thesis using assms by (simp add: parse_exponent_def)
next
  case (Cons x xs)
  obtain neg pre where t: "take_sign (xs @ [c]) = (neg, pre @ [c])"
    using take_sign_snoc[OF assms(4) assms(5), of xs] by (elim exE)
  show ?thesis using Cons t assms by (simp add: parse_exponent_def)
qed

lemma lower_last_neq:
  "lower_char c \<noteq> last w \<Longrightarrow> w \<noteq> [] \<Longrightarrow> map lower_char (r0 @ [c]) \<noteq> w"
proof
  assume a: "lower_char c \<noteq> last w" "w \<noteq> []" "map lower_char (r0 @ [c]) = w"
  have "last (map lower_char (r0 @ [c])) = lower_char c" by simp
  with a show False by simp
qed

lemma py_float_of_str_snoc_None:
  assumes "\<not> is_space c" "\<not> is_digit c" "c \<noteq> CHR ''.''" "c \<noteq> CHR ''e''" "c \<noteq> CHR ''E''"
    "c \<noteq> CHR ''-''" "c \<noteq> CHR ''+''"
    "lower_char c \<noteq> CHR ''f''" "lower_char c \<noteq> CHR ''y''" "lower_char c \<noteq> CHR ''n''"
  shows "py_float_of_str (s @ [c]) = None"
proof -
  obtain p1 where p1: "strip (s @ [c]) = p1 @ [c]"
    using strip_snoc[OF assms(1), of s] by (elim exE)
  obtain neg r0 where ts: "take_sign (p1 @ [c]) = (neg, r0 @ [c])"
    using take_sign_snoc[OF assms(6) assms(7), of p1] by (elim exE)
  let ?r = "r0 @ [c]"
  have w1: "map lower_char ?r \<noteq> ''inf''"
    by (rule lower_last_neq) (use assms(8) in simp_all)
  have w2: "map lower_char ?r \<noteq> ''infinity''"
    by (rule lower_last_neq) (use assms(9) in simp_all)
  have w3: "map lower_char ?r \<noteq> ''nan''"
    by (rule lower_last_neq) (use assms(10) in simp_all)
  obtain r1 where r1: "dropWhile is_digit ?r = r1 @ [c]"
    using dropWhile_snoc_keep[of is_digit c r0, OF assms(2)] by (elim exE)
  have pe: "parse_exponent
              (if r1 @ [c] \<noteq> [] \<and> hd (r1 @ [c]) = CHR ''.''
               then dropWhile is_digit (tl (r1 @ [c])) else r1 @ [c]) = None"
  proof (cases r1)
    case Nil
    then show ?thesis using assms(3) parse_exponent_snoc[of c "[]"] assms by simp
  next
    case (Cons x xs)
    obtain q where q: "dropWhile is_digit (xs @ [c]) = q @ [c]"
      using dropWhile_snoc_keep[of is_digit c xs, OF assms(2)] by (elim exE)
    note pe = parse_exponent_snoc[OF assms(2) assms(4) assms(5) assms(6) assms(7)]
    have "parse_exponent (q @ [c]) = None" "parse_exponent ((x # xs) @ [c]) = None"
      by (rule pe)+
    then show ?thesis using Cons q by simp
  qed
  show ?thesis
    by (simp only: py_float_of_str_def p1 ts Let_def prod.case r1 pe w1 w2 w3
          simp_thms if_False option.case if_cancel)
qed

subsection \<open>FileSize.from_string\<close>

lemma FileSize_parse_suffix:
  assumes "c \<in> set ''bkmg''" and "py_float_of_str body = Some f"
  shows "FileSize_parse (body @ [c]) =
           py_int_of_float
             (if c = CHR ''b'' then fmul_const f 512
              else if c = CHR ''k'' then fmul_const f 1024
              else if c = CHR ''m'' then fmul_const (fmul_const f 1024) 1024
              else fmul_const (fmul_const (fmul_const f 1024) 1024) 1024)"
  using assms by (simp add: FileSize_parse_def Let_def)

lemma FileSize_parse_plain:
  assumes "s \<noteq> []" and "last s \<notin> set ''bkmg''" and "py_float_of_str s = Some f"
  shows "FileSize_parse s = py_int_of_float f"
  using assms by (simp add: FileSize_parse_def Let_def)

lemma lower_char_BKMG:
  "lower_char CHR ''B'' = CHR ''b''" "lower_char CHR ''K'' = CHR ''k''"
  "lower_char CHR ''M'' = CHR ''m''" "lower_char CHR ''G'' = CHR ''g''"
  by code_simp+

lemma FileSize_parse_upper:
  assumes "c \<in> set ''BKMG''"
  shows "FileSize_parse (s @ [c]) =
           Inl (ValueError (quoted (s @ [c]) @ '' is not a valid FILESIZE string''))"
proof -
  have "py_float_of_str (s @ [c]) = None"
    by (rule py_float_of_str_snoc_None)
       (use assms in \<open>auto simp: is_space_def is_digit_def lower_char_BKMG\<close>)
  moreover have "c \<notin> set ''bkmg''" using assms by auto
  ultimately show ?thesis by (simp add: FileSize_parse_def Let_def)
qed

lemma FileSize_parse_10k: "FileSize_parse ''10k'' = Inr 10240"
  by code_simp

lemma FileSize_parse_10_5k: "FileSize_parse ''10.5k'' = Inr 10752"
  by code_simp

lemma FileSize_parse_10KB:
  "FileSize_parse ''10KB'' =
     Inl (ValueError (quoted ''10KB'' @ '' is not a valid FILESIZE string''))"
  by code_simp

lemma FileSize_parse_10K:
  "FileSize_parse ''10K'' =
     Inl (ValueError (quoted ''10K'' @ '' is not a valid FILESIZE string''))"
  by code_simp

lemma size_cache_ok_empty: "size_cache_ok Map.empty"
  by (simp add: size_cache_ok_def)

text \<open>
  C1, as stated, is false: the unit suffix is not case-insensitive. On an empty
  dictionary \<open>"10k"\<close> parses to 10240 while \<open>"10K"\<close> raises ValueError.
\<close>

theorem C1_upper_case_suffix_counterexample:
  "fst (FileSize_from_string Map.empty ''10k'') = Inr 10240 \<and>
   fst (FileSize_from_string Map.empty ''10K'') =
     Inl (ValueError (quoted ''10K'' @ '' is not a valid FILESIZE string''))"
  by (simp add: FileSize_from_string_def FileSize_parse_10k FileSize_parse_10K)

text \<open>
  C1, amended. With a dictionary built by the program, \<open>FileSize.from_string\<close> parses
  a float literal followed by one of the lower-case letters \<open>b\<close>, \<open>k\<close>, \<open>m\<close>, \<open>g\<close>
  by multiplying with 512, 1024, 1024 * 1024, 1024 * 1024 * 1024; a literal without
  such a letter is a number of bytes; the float is turned into an integer after
  the scaling, by truncation towards zero; a string that ends in an upper-case
  \<open>B\<close>, \<open>K\<close>, \<open>M\<close> or \<open>G\<close> raises the ValueError that names it. \<open>"10k"\<close> is 10240,
  \<open>"10.5k"\<close> is 10752, \<open>"10KB"\<close> is rejected.
\<close>

theorem C1_from_string_units:
  assumes "size_cache_ok known_strings"
  shows
   "(py_float_of_str body = Some f \<longrightarrow>
       fst (FileSize_from_string known_strings (body @ ''b'')) =
         py_int_of_float (fmul_const f 512) \<and>
       fst (FileSize_from_string known_strings (body @ ''k'')) =
         py_int_of_float (fmul_const f 1024) \<and>
       fst (FileSize_from_string known_strings (body @ ''m'')) =
         py_int_of_float (fmul_const (fmul_const f 1024) 1024) \<and>
       fst (FileSize_from_string known_strings (body @ ''g'')) =
         py_int_of_float (fmul_const (fmul_const (fmul_const f 1024) 1024) 1024)) \<and>
    (s \<noteq> [] \<and> last s \<notin> set ''bkmg'' \<and> py_float_of_str s = Some f' \<longrightarrow>
       fst (FileSize_from_string known_strings s) = py_int_of_float f') \<and>
    (c \<in> set ''BKMG'' \<longrightarrow>
       fst (FileSize_from_string known_strings (t @ [c])) =
         Inl (ValueError (quoted (t @ [c]) @ '' is not a valid FILESIZE string''))) \<and>
    py_int_of_float (Fin q) = Inr (if 0 \<le> q then \<lfloor>q\<rfloor> else \<lceil>q\<rceil>) \<and>
    fst (FileSize_from_string known_strings ''10k'') = Inr 10240 \<and>
    fst (FileSize_from_string known_strings ''10.5k'') = Inr 10752 \<and>
    fst (FileSize_from_string known_strings ''10KB'') =
      Inl (ValueError (quoted ''10KB'' @ '' is not a valid FILESIZE string''))"
proof -
  note fst_eq = FileSize_from_string_fst[OF assms]
  have units: "py_float_of_str body = Some f \<longrightarrow>
       fst (FileSize_from_string known_strings (body @ ''b'')) =
         py_int_of_float (fmul_const f 512) \<and>
       fst (FileSize_from_string known_strings (body @ ''k'')) =
         py_int_of_float (fmul_const f 1024) \<and>
       fst (FileSize_from_string known_strings (body @ ''m'')) =
         py_int_of_float (fmul_const (fmul_const f 1024) 1024) \<and>
       fst (FileSize_from_string known_strings (body @ ''g'')) =
         py_int_of_float (fmul_const (fmul_const (fmul_const f 1024) 1024) 1024)"
    by (simp add: fst_eq FileSize_parse_suffix)
  have plain: "s \<noteq> [] \<and> last s \<notin> set ''bkmg'' \<and> py_float_of_str s = Some f' \<longrightarrow>
       fst (FileSize_from_string known_strings s) = py_int_of_float f'"
    using FileSize_parse_plain[of s f'] by (simp add: fst_eq)
  have upper: "c \<in> set ''BKMG'' \<longrightarrow>
       fst (FileSize_from_string known_strings (t @ [c])) =
         Inl (ValueError (quoted (t @ [c]) @ '' is not a valid FILESIZE string''))"
    using FileSize_parse_upper[of c t] by (simp add: fst_eq)
  have trunc: "py_int_of_float (Fin q) = Inr (if 0 \<le> q then \<lfloor>q\<rfloor> else \<lceil>q\<rceil>)"
    by (simp add: trunc_rat_def ceiling_def)
  show ?thesis
    using units plain upper trunc
    by (simp only: fst_eq FileSize_parse_10k FileSize_parse_10_5k FileSize_parse_10KB
          simp_thms)
qed

lemma py_float_of_str_10_5: "py_float_of_str ''10.5'' = Some (Fin (21 / 2))"
  by code_simp

lemma py_float_of_str_1234: "py_float_of_str ''1234'' = Some (Fin 1234)"
  by code_simp

theorem C1_from_string_units_witness:
  "size_cache_ok Map.empty \<and>
   py_float_of_str ''10.5'' = Some (Fin (21 / 2)) \<and>
   fst (FileSize_from_string Map.empty ''10.5k'') =
     py_int_of_float (fmul_const (Fin (21 / 2)) 1024) \<and>
   ''1234'' \<noteq> [] \<and> last ''1234'' \<notin> set ''bkmg'' \<and>
   py_float_of_str ''1234'' = Some (Fin 1234) \<and>
   fst (FileSize_from_string Map.empty ''1234'') = py_int_of_float (Fin 1234) \<and>
   CHR ''K'' \<in> set ''BKMG'' \<and>
   fst (FileSize_from_string Map.empty ''10K'') =
     Inl (ValueError (quoted ''10K'' @ '' is not a valid FILESIZE string'')) \<and>
   fst (FileSize_from_string Map.empty ''10k'') = Inr 10240"
  using C1_from_string_units[OF size_cache_ok_empty,
          of "''10.5''" "Fin (21 / 2)" "''1234''" "Fin 1234" "CHR ''K''" "''10''" 0]
    py_float_of_str_10_5 py_float_of_str_1234 size_cache_ok_empty
  by simp

subsection \<open>Unixtime.str_to_secs\<close>

lemma fsub_int_not_ValueError:
  "\<not> is_ValueError (case fsub_int now n of Inl e \<Rightarrow> Inl e | Inr f \<Rightarrow> py_int_of_float f)"
proof (cases "round_double (of_int n)")
  case (Fin b)
  have "round_double (now - b) \<noteq> NaN" by (rule round_double_not_NaN)
  then show ?thesis using Fin
    by (cases "round_double (now - b)") (simp_all add: fsub_int_def)
qed (simp_all add: fsub_int_def)

lemma is_ValueError_relative:
  "is_ValueError
     (case Unixtime_reltime_to_secs s of
        Inl e \<Rightarrow> Inl e
      | Inr n \<Rightarrow> (case fsub_int now n of Inl e \<Rightarrow> Inl e | Inr f \<Rightarrow> py_int_of_float f))
   = is_ValueError (Unixtime_reltime_to_secs s)"
  using fsub_int_not_ValueError by (cases "Unixtime_reltime_to_secs s") simp_all

lemma str_to_secs_hit:
  "known s = Some v \<Longrightarrow> Unixtime_str_to_secs now strp known s = (Inr v, known)"
  by (simp add: Unixtime_str_to_secs_def)

lemma str_to_secs_relative:
  assumes "known s = None" and "Unixtime_reltime_to_secs s = Inr n"
  shows "Unixtime_str_to_secs now strp known s =
           (case (case fsub_int now n of Inl e \<Rightarrow> Inl e | Inr f \<Rightarrow> py_int_of_float f) of
              Inl e \<Rightarrow> (Inl e, known)
            | Inr v \<Rightarrow> (Inr v, known(s \<mapsto> v)))"
  using assms fsub_int_not_ValueError[of now n]
  by (simp add: Unixtime_str_to_secs_def Let_def)

lemma str_to_secs_absolute:
  assumes "known s = None" and "is_ValueError (Unixtime_reltime_to_secs s)"
  shows "Unixtime_str_to_secs now strp known s =
           (if is_ValueError (strp s (time_format_of s))
            then (Inl (ValueError (quoted s @ '' is not a valid DATETIME'')), known)
            else case strp s (time_format_of s) of
                   Inl e \<Rightarrow> (Inl e, known)
                 | Inr v \<Rightarrow> (Inr v, known(s \<mapsto> v)))"
  using assms is_ValueError_relative[where s = s and now = now]
  by (simp add: Unixtime_str_to_secs_def Let_def time_format_of_def)

lemma reltime_suffix:
  assumes "lower_char c \<in> set ''mhdwy''" and "py_float_of_str body = Some f"
  shows "Unixtime_reltime_to_secs (body @ [c]) =
           py_int_of_float
             (if lower_char c = CHR ''m'' then fmul_const f 60
              else if lower_char c = CHR ''h'' then fmul_const (fmul_const f 60) 60
              else if lower_char c = CHR ''d'' then
                fmul_const (fmul_const (fmul_const f 60) 60) 24
              else if lower_char c = CHR ''w'' then
                fmul_const (fmul_const (fmul_const (fmul_const f 60) 60) 24) 7
              else fmul_const (fmul_const (fmul_const (fmul_const f 60) 60) 24) 365)"
  using assms by (auto simp: Unixtime_reltime_to_secs_def Let_def)

lemma reltime_plain:
  assumes "s \<noteq> []" and "lower_char (last s) \<notin> set ''mhdwy''"
    and "py_float_of_str s = Some f"
  shows "Unixtime_reltime_to_secs s =
           py_int_of_float (fmul_const (fmul_const (fmul_const f 60) 60) 24)"
  using assms by (simp add: Unixtime_reltime_to_secs_def Let_def)

lemma reltime_2w: "Unixtime_reltime_to_secs ''2w'' = Inr 1209600"
  by code_simp

lemma reltime_2days:
  "Unixtime_reltime_to_secs ''2days'' =
     Inl (ValueError (quoted ''2days'' @ '' is not a valid DATETIME string''))"
  by code_simp

lemma int_of_now_example:
  "(case fsub_int 1700000000 1209600 of Inl e \<Rightarrow> Inl e | Inr f \<Rightarrow> py_int_of_float f)
     = Inr 1698790400"
  by code_simp

text \<open>
  C2, as stated, is false: it is not for every call that \<open>"2w"\<close> is read against the
  clock of the call. A first call at time 1700000000 returns 1698790400; a second
  call one day later returns 1698790400 again, and not 1700086400 - 14 * 86400.
\<close>

theorem C2_clock_at_call_time_counterexample:
  "fst (Unixtime_str_to_secs 1700000000 strptime_rejects Map.empty ''2w'') = Inr 1698790400 \<and>
   fst (Unixtime_str_to_secs 1700086400 strptime_rejects
          (snd (Unixtime_str_to_secs 1700000000 strptime_rejects Map.empty ''2w'')) ''2w'')
     = Inr 1698790400 \<and>
   (1700086400 - 14 * 86400 :: int) \<noteq> 1698790400"
proof -
  have first: "Unixtime_str_to_secs 1700000000 strptime_rejects Map.empty ''2w'' =
                 (Inr 1698790400, [''2w'' \<mapsto> 1698790400])"
    using str_to_secs_relative[of Map.empty "''2w''" 1209600 1700000000 strptime_rejects]
    by (simp add: reltime_2w int_of_now_example)
  show ?thesis
    by (simp add: first str_to_secs_hit)
qed

lemma reltime_Jul: "is_ValueError (Unixtime_reltime_to_secs ''Jul 22 2012'')"
  by code_simp

lemma reltime_Jul_time: "is_ValueError (Unixtime_reltime_to_secs ''Jul 22 2012 16:37'')"
  by code_simp

lemma time_format_examples:
  "time_format_of ''Jul 22 2012'' = ''%b %d %Y''"
  "time_format_of ''Jul 22 2012 16:37'' = ''%b %d %Y %H:%M''"
  "time_format_of ''2days'' = ''%b %d %Y %H:%M''"
  by code_simp+

lemma py_float_of_str_2: "py_float_of_str ''2'' = Some (Fin 2)"
  by code_simp

lemma lower_char_W: "lower_char CHR ''W'' = CHR ''w''"
  by code_simp

text \<open>
  C2, amended. \<open>Unixtime.str_to_secs\<close> answers a string that is a key of its
  dictionary from the dictionary, whatever the clock. For any other string:
  a float literal with an optional unit letter \<open>m\<close>, \<open>h\<close>, \<open>d\<close>, \<open>w\<close>, \<open>y\<close> in either
  case (no letter: days; a year is 365 days) is a number \<open>n\<close> of seconds, and the
  result, which is stored, is \<open>int(now - n)\<close> with the clock of this call, so that
  \<open>"2w"\<close> gives \<open>int(now - 14 * 86400)\<close>; when the clock is a double below \<open>2^53\<close>
  and \<open>0 \<le> n \<le> now\<close>, the float subtraction is exact and the result is the whole
  seconds of the clock minus \<open>n\<close>; a string whose relative reading raises
  ValueError goes to \<open>strptime\<close> with the format \<open>%b %d %Y\<close> when it has three
  tokens and \<open>%b %d %Y %H:%M\<close> otherwise, and what that gives is the result; when
  that raises ValueError too, the ValueError that names the string is raised.
  \<open>"2days"\<close> is no relative time, and is rejected when \<open>strptime\<close> rejects it.
\<close>

theorem C2_str_to_secs:
  "(known s = Some v \<longrightarrow> Unixtime_str_to_secs now strp known s = (Inr v, known)) \<and>
   (known s = None \<and> Unixtime_reltime_to_secs s = Inr n \<longrightarrow>
      Unixtime_str_to_secs now strp known s =
        (case (case fsub_int now n of Inl e \<Rightarrow> Inl e | Inr f \<Rightarrow> py_int_of_float f) of
           Inl e \<Rightarrow> (Inl e, known)
         | Inr u \<Rightarrow> (Inr u, known(s \<mapsto> u)))) \<and>
   (known s = None \<and> Unixtime_reltime_to_secs s = Inr n \<and> round_double now = Fin now \<and>
    0 \<le> n \<and> of_int n \<le> now \<and> now < 2 ^ 53 \<longrightarrow>
      Unixtime_str_to_secs now strp known s =
        (Inr (\<lfloor>now\<rfloor> - n), known(s \<mapsto> \<lfloor>now\<rfloor> - n))) \<and>
   (lower_char c \<in> set ''mhdwy'' \<and> py_float_of_str body = Some f \<longrightarrow>
      Unixtime_reltime_to_secs (body @ [c]) =
        py_int_of_float
          (if lower_char c = CHR ''m'' then fmul_const f 60
           else if lower_char c = CHR ''h'' then fmul_const (fmul_const f 60) 60
           else if lower_char c = CHR ''d'' then
             fmul_const (fmul_const (fmul_const f 60) 60) 24
           else if lower_char c = CHR ''w'' then
             fmul_const (fmul_const (fmul_const (fmul_const f 60) 60) 24) 7
           else fmul_const (fmul_const (fmul_const (fmul_const f 60) 60) 24) 365)) \<and>
   (t \<noteq> [] \<and> lower_char (last t) \<notin> set ''mhdwy'' \<and> py_float_of_str t = Some f' \<longrightarrow>
      Unixtime_reltime_to_secs t =
        py_int_of_float (fmul_const (fmul_const (fmul_const f' 60) 60) 24)) \<and>
   (known ''2w'' = None \<longrightarrow>
      fst (Unixtime_str_to_secs now strp known ''2w'') =
        (case fsub_int now (14 * 86400) of Inl e \<Rightarrow> Inl e | Inr f \<Rightarrow> py_int_of_float f)) \<and>
   (known ''2w'' = None \<and> round_double now = Fin now \<and> 14 * 86400 \<le> now \<and> now < 2 ^ 53 \<longrightarrow>
      Unixtime_str_to_secs now strp known ''2w'' =
        (Inr (\<lfloor>now\<rfloor> - 14 * 86400), known(''2w'' \<mapsto> \<lfloor>now\<rfloor> - 14 * 86400))) \<and>
   (known s = None \<and> is_ValueError (Unixtime_reltime_to_secs s) \<and>
    \<not> is_ValueError (strp s (time_format_of s)) \<longrightarrow>
      Unixtime_str_to_secs now strp known s =
        (case strp s (time_format_of s) of
           Inl e \<Rightarrow> (Inl e, known)
         | Inr u \<Rightarrow> (Inr u, known(s \<mapsto> u)))) \<and>
   (known s = None \<and> is_ValueError (Unixtime_reltime_to_secs s) \<and>
    is_ValueError (strp s (time_format_of s)) \<longrightarrow>
      Unixtime_str_to_secs now strp known s =
        (Inl (ValueError (quoted s @ '' is not a valid DATETIME'')), known)) \<and>
   (length (split_ws s) = 3 \<longrightarrow> time_format_of s = ''%b %d %Y'') \<and>
   (length (split_ws s) \<noteq> 3 \<longrightarrow> time_format_of s = ''%b %d %Y %H:%M'') \<and>
   Unixtime_reltime_to_secs ''2days'' =
     Inl (ValueError (quoted ''2days'' @ '' is not a valid DATETIME string'')) \<and>
   (known ''2days'' = None \<and> is_ValueError (strp ''2days'' ''%b %d %Y %H:%M'') \<longrightarrow>
      Unixtime_str_to_secs now strp known ''2days'' =
        (Inl (ValueError (quoted ''2days'' @ '' is not a valid DATETIME'')), known))"
proof -
  have two_weeks: "known ''2w'' = None \<longrightarrow>
      fst (Unixtime_str_to_secs now strp known ''2w'') =
        (case fsub_int now (14 * 86400) of Inl e \<Rightarrow> Inl e | Inr f \<Rightarrow> py_int_of_float f)"
    using str_to_secs_relative[of known "''2w''" 1209600 now strp]
    by (auto simp: reltime_2w split: sum.splits)
  have exact: "known s = None \<and> Unixtime_reltime_to_secs s = Inr n \<and> round_double now = Fin now \<and>
    0 \<le> n \<and> of_int n \<le> now \<and> now < 2 ^ 53 \<longrightarrow>
      Unixtime_str_to_secs now strp known s =
        (Inr (\<lfloor>now\<rfloor> - n), known(s \<mapsto> \<lfloor>now\<rfloor> - n))"
    using str_to_secs_relative[of known s n now strp] int_of_fsub_int[of now n]
    by simp
  have two_weeks_exact: "known ''2w'' = None \<and> round_double now = Fin now \<and>
      14 * 86400 \<le> now \<and> now < 2 ^ 53 \<longrightarrow>
      Unixtime_str_to_secs now strp known ''2w'' =
        (Inr (\<lfloor>now\<rfloor> - 14 * 86400), known(''2w'' \<mapsto> \<lfloor>now\<rfloor> - 14 * 86400))"
    using str_to_secs_relative[of known "''2w''" 1209600 now strp]
      int_of_fsub_int[of now 1209600]
    by (simp add: reltime_2w)
  have two_days: "known ''2days'' = None \<and> is_ValueError (strp ''2days'' ''%b %d %Y %H:%M'') \<longrightarrow>
      Unixtime_str_to_secs now strp known ''2days'' =
        (Inl (ValueError (quoted ''2days'' @ '' is not a valid DATETIME'')), known)"
    using str_to_secs_absolute[of known "''2days''" now strp]
    by (simp add: reltime_2days time_format_examples)
  have absolute: "known s = None \<and> is_ValueError (Unixtime_reltime_to_secs s) \<and>
    \<not> is_ValueError (strp s (time_format_of s)) \<longrightarrow>
      Unixtime_str_to_secs now strp known s =
        (case strp s (time_format_of s) of
           Inl e \<Rightarrow> (Inl e, known)
         | Inr u \<Rightarrow> (Inr u, known(s \<mapsto> u)))"
    using str_to_secs_absolute[of known s now strp] by simp
  have rejected: "known s = None \<and> is_ValueError (Unixtime_reltime_to_secs s) \<and>
    is_ValueError (strp s (time_format_of s)) \<longrightarrow>
      Unixtime_str_to_secs now strp known s =
        (Inl (ValueError (quoted s @ '' is not a valid DATETIME'')), known)"
    using str_to_secs_absolute[of known s now strp] by simp
  have fmt: "(length (split_ws s) = 3 \<longrightarrow> time_format_of s = ''%b %d %Y'') \<and>
   (length (split_ws s) \<noteq> 3 \<longrightarrow> time_format_of s = ''%b %d %Y %H:%M'')"
    by (simp add: time_format_of_def)
  show ?thesis
    using str_to_secs_hit[of known s v now strp]
      str_to_secs_relative[of known s n now strp]
      reltime_suffix[of c body f] reltime_plain[of t f']
      two_weeks absolute rejected fmt reltime_2days two_days exact two_weeks_exact
    by blast
qed

theorem C2_str_to_secs_witness:
  "[''1d'' \<mapsto> (5::int)] ''1d'' = Some 5 \<and>
   Unixtime_str_to_secs 1700000000 strptime_utc_example [''1d'' \<mapsto> 5] ''1d''
     = (Inr 5, [''1d'' \<mapsto> 5]) \<and>
   Map.empty ''2w'' = (None :: int option) \<and>
   Unixtime_reltime_to_secs ''2w'' = Inr 1209600 \<and>
   round_double 1700000000 = Fin 1700000000 \<and>
   Unixtime_str_to_secs 1700000000 strptime_utc_example Map.empty ''2w''
     = (Inr 1698790400, [''2w'' \<mapsto> 1698790400]) \<and>
   lower_char CHR ''W'' \<in> set ''mhdwy'' \<and> py_float_of_str ''2'' = Some (Fin 2) \<and>
   Unixtime_reltime_to_secs ''2W'' = Inr 1209600 \<and>
   Unixtime_reltime_to_secs ''2'' = Inr 172800 \<and>
   is_ValueError (Unixtime_reltime_to_secs ''Jul 22 2012'') \<and>
   Unixtime_str_to_secs 1700000000 strptime_utc_example Map.empty ''Jul 22 2012''
     = (Inr 1342915200, [''Jul 22 2012'' \<mapsto> 1342915200]) \<and>
   is_ValueError (strptime_utc_example ''2days'' ''%b %d %Y %H:%M'') \<and>
   Unixtime_str_to_secs 1700000000 strptime_utc_example Map.empty ''2days''
     = (Inl (ValueError (quoted ''2days'' @ '' is not a valid DATETIME'')), Map.empty)"
proof -
  note c2 = C2_str_to_secs
  have a: "Unixtime_str_to_secs 1700000000 strptime_utc_example [''1d'' \<mapsto> 5] ''1d''
     = (Inr 5, [''1d'' \<mapsto> 5])"
    using c2[of "[''1d'' \<mapsto> 5]" "''1d''" 5 1700000000 strptime_utc_example] by simp
  have b: "Unixtime_str_to_secs 1700000000 strptime_utc_example Map.empty ''2w''
     = (Inr 1698790400, [''2w'' \<mapsto> 1698790400])"
    using c2[of Map.empty "''2w''" _ 1700000000 strptime_utc_example 1209600]
    by (simp add: reltime_2w int_of_now_example)
  have rd: "round_double 1700000000 = Fin 1700000000"
    by code_simp
  have c: "Unixtime_reltime_to_secs ''2W'' = Inr 1209600"
    by code_simp
  have d: "Unixtime_reltime_to_secs ''2'' = Inr 172800"
    by code_simp
  have e: "Unixtime_str_to_secs 1700000000 strptime_utc_example Map.empty ''Jul 22 2012''
     = (Inr 1342915200, [''Jul 22 2012'' \<mapsto> 1342915200])"
    using c2[of Map.empty "''Jul 22 2012''" _ 1700000000 strptime_utc_example]
    by (simp add: reltime_Jul time_format_examples strptime_utc_example_def)
  have f: "is_ValueError (strptime_utc_example ''2days'' ''%b %d %Y %H:%M'')"
    by (simp add: strptime_utc_example_def)
  have g: "Unixtime_str_to_secs 1700000000 strptime_utc_example Map.empty ''2days''
     = (Inl (ValueError (quoted ''2days'' @ '' is not a valid DATETIME'')), Map.empty)"
    using c2[of Map.empty _ _ 1700000000 strptime_utc_example] f by simp
  show ?thesis
    using a b c d e f g rd reltime_2w reltime_Jul py_float_of_str_2
    by (simp add: lower_char_W)
qed

subsection \<open>The dictionary of Unixtime only grows\<close>

lemma str_to_secs_stores:
  "Unixtime_str_to_secs now strp known s = (Inr v, known') \<Longrightarrow> known' s = Some v"
  by (auto simp: Unixtime_str_to_secs_def Let_def split: option.splits sum.splits if_splits)

lemma str_to_secs_keeps:
  "known s = Some v \<Longrightarrow> snd (Unixtime_str_to_secs now strp known t) s = Some v"
  by (auto simp: Unixtime_str_to_secs_def Let_def split: option.splits sum.splits)

lemma str_to_secs_calls_keep:
  "known s = Some v \<Longrightarrow> str_to_secs_calls calls known s = Some v"
proof (induction calls arbitrary: known)
  case Nil
  then show ?case by simp
next
  case (Cons call calls)
  obtain now strp t where call: "call = (now, strp, t)" by (cases call)
  have "snd (Unixtime_str_to_secs now strp known t) s = Some v"
    using Cons.prems by (rule str_to_secs_keeps)
  then show ?case using Cons.IH call by simp
qed

text \<open>
  C10. Once a call of \<open>Unixtime.str_to_secs\<close> on a string has returned a value, every
  later call on that string returns this value and leaves the dictionary as it is:
  whatever the clock and the surroundings of the later call, and whatever calls on
  whatever strings came in between. So two calls on \<open>"2w"\<close> at different clock times
  return the same unix time.
\<close>

theorem C10_first_parse_is_frozen:
  assumes "Unixtime_str_to_secs now1 strp1 known s = (Inr v, known')"
  shows "Unixtime_str_to_secs now2 strp2 (str_to_secs_calls calls known') s =
           (Inr v, str_to_secs_calls calls known')"
proof -
  have "known' s = Some v" using assms by (rule str_to_secs_stores)
  then have "str_to_secs_calls calls known' s = Some v" by (rule str_to_secs_calls_keep)
  then show ?thesis by (rule str_to_secs_hit)
qed

theorem C10_first_parse_is_frozen_witness:
  "Unixtime_str_to_secs 1700000000 strptime_rejects Map.empty ''2w'' =
     (Inr 1698790400, [''2w'' \<mapsto> 1698790400]) \<and>
   fst (Unixtime_str_to_secs 1700086400 strptime_utc_example
          (str_to_secs_calls [(1700000100, strptime_utc_example, ''Jul 22 2012'')]
             [''2w'' \<mapsto> 1698790400]) ''2w'') = Inr 1698790400"
proof -
  have first: "Unixtime_str_to_secs 1700000000 strptime_rejects Map.empty ''2w'' =
                 (Inr 1698790400, [''2w'' \<mapsto> 1698790400])"
    using str_to_secs_relative[of Map.empty "''2w''" 1209600 1700000000 strptime_rejects]
    by (simp add: reltime_2w int_of_now_example)
  show ?thesis
    using first
      C10_first_parse_is_frozen[OF first, of 1700086400 strptime_utc_example
        "[(1700000100, strptime_utc_example, ''Jul 22 2012'')]"]
    by simp
qed

subsection \<open>Comparisons of the typed scalars\<close>

lemma FileSize_method_eq:
  "FileSize_method op = arg_to_int (compare_op op)"
  by (cases op;
      simp add: FileSize_lt_def FileSize_gt_def FileSize_le_def FileSize_ge_def FileSize_eq_def FileSize_ne_def;
      rule arg_cong[where f = arg_to_int]; simp add: fun_eq_iff)

lemma Unixtime_method_eq:
  "Unixtime_method op = arg_to_unixtime (compare_op op)"
  by (cases op;
      simp add: Unixtime_lt_def Unixtime_gt_def Unixtime_le_def Unixtime_ge_def Unixtime_eq_def Unixtime_ne_def;
      rule arg_cong[where f = arg_to_unixtime]; simp add: fun_eq_iff)

lemma Uid_method_eq:
  "Uid_method op = make_uid (compare_op op)"
  by (cases op;
      simp add: Uid_lt_def Uid_gt_def Uid_le_def Uid_ge_def Uid_eq_def Uid_ne_def;
      rule arg_cong[where f = make_uid]; simp add: fun_eq_iff)

lemma Gid_method_eq:
  "Gid_method op = make_gid (compare_op op)"
  by (cases op;
      simp add: Gid_lt_def Gid_gt_def Gid_le_def Gid_ge_def Gid_eq_def Gid_ne_def;
      rule arg_cong[where f = make_gid]; simp add: fun_eq_iff)

lemma py_int_of_str_10: "py_int_of_str ''10'' = Some 10"
  by code_simp

lemma FileSize_parse_10: "FileSize_parse ''10'' = Inr 10"
  by code_simp

text \<open>
  C3. For each of Unixtime, Uid, Gid and FileSize, each of the six comparison
  operators, each stored value \<open>v\<close> and each operand string \<open>s\<close> that the parser of
  the kind accepts: comparing \<open>v\<close> with \<open>s\<close> gives what comparing the integer \<open>v\<close> with
  the integer parsed from \<open>s\<close> gives (and leaves the dictionary as the parser left
  it). The comparison with a native integer is the comparison of the integers.
\<close>

theorem C3_string_operand_is_parsed:
  "(FileSize_from_string known s = (Inr n, k) \<longrightarrow>
      FileSize_method op known v (StrArg s) = (Inr (compare_op op v n), k)) \<and>
   (Unixtime_str_to_secs now strp known s = (Inr n, k) \<longrightarrow>
      Unixtime_method op now strp known v (StrArg s) = (Inr (compare_op op v n), k)) \<and>
   (Uid_from_str windows getpwnam known s = (Inr n, k) \<longrightarrow>
      Uid_method op windows getpwnam known v (StrArg s) = (Inr (compare_op op v n), k)) \<and>
   (Gid_from_str windows getgrnam known s = (Inr n, k) \<longrightarrow>
      Gid_method op windows getgrnam known v (StrArg s) = (Inr (compare_op op v n), k)) \<and>
   FileSize_method op known v (IntArg m) = (Inr (compare_op op v m), known) \<and>
   Unixtime_method op now strp known v (IntArg m) = (Inr (compare_op op v m), known) \<and>
   Uid_method op windows getpwnam known v (IntArg m) = (Inr (compare_op op v m), known) \<and>
   Gid_method op windows getgrnam known v (IntArg m) = (Inr (compare_op op v m), known)"
  by (simp add: FileSize_method_eq Unixtime_method_eq Uid_method_eq Gid_method_eq
        arg_to_int_def arg_to_unixtime_def make_uid_def make_gid_def)

text \<open>
  At the witness the numeric and the lexical order differ: 9 is less than 10, and
  the string \<open>"9"\<close> is not less than the string \<open>"10"\<close>.
\<close>

theorem C3_string_operand_is_parsed_witness:
  "FileSize_from_string Map.empty ''10'' = (Inr 10, [''10'' \<mapsto> 10]) \<and>
   FileSize_method LT Map.empty 9 (StrArg ''10'') = (Inr True, [''10'' \<mapsto> 10]) \<and>
   Unixtime_str_to_secs 1700000000 strptime_rejects Map.empty ''2w''
     = (Inr 1698790400, [''2w'' \<mapsto> 1698790400]) \<and>
   Unixtime_method GE 1700000000 strptime_rejects Map.empty 1698790400 (StrArg ''2w'')
     = (Inr True, [''2w'' \<mapsto> 1698790400]) \<and>
   Uid_from_str False [''root'' \<mapsto> 0] Map.empty ''root'' = (Inr 0, [''root'' \<mapsto> 0]) \<and>
   Uid_method EQ False [''root'' \<mapsto> 0] Map.empty 0 (StrArg ''root'')
     = (Inr True, [''root'' \<mapsto> 0]) \<and>
   Gid_from_str False [''root'' \<mapsto> 0] Map.empty ''10'' = (Inr 10, [''10'' \<mapsto> 10]) \<and>
   Gid_method GT False [''root'' \<mapsto> 0] Map.empty 9 (StrArg ''10'')
     = (Inr False, [''10'' \<mapsto> 10]) \<and>
   \<not> (''9'' :: string) < ''10''"
proof -
  have a: "FileSize_from_string Map.empty ''10'' = (Inr 10, [''10'' \<mapsto> 10])"
    by (simp add: FileSize_from_string_def FileSize_parse_10)
  have b: "Unixtime_str_to_secs 1700000000 strptime_rejects Map.empty ''2w''
     = (Inr 1698790400, [''2w'' \<mapsto> 1698790400])"
    using str_to_secs_relative[of Map.empty "''2w''" 1209600 1700000000 strptime_rejects]
    by (simp add: reltime_2w int_of_now_example)
  have "py_int_of_str ''root'' = None" by code_simp
  then have c: "Uid_from_str False [''root'' \<mapsto> 0] Map.empty ''root''
                  = (Inr 0, [''root'' \<mapsto> 0])"
    by (simp add: Uid_from_str_def id_from_str_def)
  have d: "Gid_from_str False [''root'' \<mapsto> 0] Map.empty ''10'' = (Inr 10, [''10'' \<mapsto> 10])"
    by (simp add: Gid_from_str_def id_from_str_def py_int_of_str_10)
  have e: "\<not> (''9'' :: string) < ''10''" by code_simp
  show ?thesis
    using a b c d e
      C3_string_operand_is_parsed[where known = Map.empty and s = "''10''" and n = 10
        and k = "[''10'' \<mapsto> 10]" and op = LT and v = 9]
      C3_string_operand_is_parsed[where known = Map.empty and s = "''2w''"
        and n = 1698790400 and k = "[''2w'' \<mapsto> 1698790400]" and op = GE
        and v = 1698790400 and now = 1700000000 and strp = strptime_rejects]
      C3_string_operand_is_parsed[where known = Map.empty and s = "''root''" and n = 0
        and k = "[''root'' \<mapsto> 0]" and op = EQ and v = 0 and windows = False
        and getpwnam = "[''root'' \<mapsto> 0]"]
      C3_string_operand_is_parsed[where known = Map.empty and s = "''10''" and n = 10
        and k = "[''10'' \<mapsto> 10]" and op = GT and v = 9 and windows = False
        and getgrnam = "[''root'' \<mapsto> 0]"]
    by simp
qed

subsection \<open>Filters\<close>

lemma passes_filters_True_iff:
  "passes_filters env fl r = Inr True \<longleftrightarrow> (\<forall>e\<in>set fl. passes_entry env r e = Inr True)"
  by (induction fl) (auto split: sum.splits bool.splits)

lemma passes_filters_stops:
  assumes "\<forall>x\<in>set ps. passes_entry env r x = Inr True"
    and "passes_entry env r e = Inr False"
  shows "passes_filters env (ps @ e # qs) r = Inr False"
  using assms by (induction ps) simp_all

lemma apply_filters_loop_filter:
  assumes "\<forall>r\<in>set statlist. \<exists>b. passes_filters env fl r = Inr b"
  shows "apply_filters_loop env fl statlist =
           Inr (filter (\<lambda>r. passes_filters env fl r = Inr True) statlist)"
  using assms by (induction statlist) auto

text \<open>
  C4. \<open>passes_filters\<close> returns true exactly when the record passes every entry of
  the filter list. With an empty list every record passes and \<open>apply_all_filters\<close>
  returns its argument. When the record passes the entries \<open>ps\<close> and fails the
  entry \<open>e\<close>, the result is false whatever entries \<open>qs\<close> follow, also entries whose
  evaluation would raise: they are not evaluated. When no record makes the
  evaluation raise, \<open>apply_all_filters\<close> keeps, in order, the records that pass.
\<close>

theorem C4_passes_filters_conjunction:
  "(passes_filters env fl r = Inr True \<longleftrightarrow>
      (\<forall>e\<in>set fl. passes_entry env r e = Inr True)) \<and>
   passes_filters env [] r = Inr True \<and>
   apply_all_filters env [] statlist = Inr statlist \<and>
   ((\<forall>x\<in>set ps. passes_entry env r x = Inr True) \<and> passes_entry env r e = Inr False \<longrightarrow>
      passes_filters env (ps @ e # qs) r = Inr False) \<and>
   ((\<forall>r\<in>set statlist. \<exists>b. passes_filters env fl r = Inr b) \<longrightarrow>
      apply_all_filters env fl statlist =
        Inr (filter (\<lambda>r. passes_filters env fl r = Inr True) statlist))"
proof -
  have loop: "(\<forall>r\<in>set statlist. \<exists>b. passes_filters env fl r = Inr b) \<longrightarrow>
      apply_all_filters env fl statlist =
        Inr (filter (\<lambda>r. passes_filters env fl r = Inr True) statlist)"
  proof (cases "fl = []")
    case True
    then show ?thesis by (simp add: apply_all_filters_def)
  next
    case False
    then show ?thesis
      using apply_filters_loop_filter[of statlist env fl] by (simp add: apply_all_filters_def)
  qed
  show ?thesis
    using passes_filters_True_iff[of env fl r] passes_filters_stops[of ps env r e qs] loop
    by (simp add: apply_all_filters_def)
qed

lemma passes_size_entry:
  "passes_entry env r (size_entry ''<'' n) = Inr (st_size r < n)"
  "passes_entry env r (size_entry ''>'' n) = Inr (st_size r > n)"
  by (simp_all add: passes_entry_def size_entry_def stats_def)

lemma passes_type_entry:
  "passes_entry env r (type_entry ''in'' val codes) = Inr (st_Typecode r \<in> set codes)"
  "passes_entry env r (type_entry ''not in'' val codes) = Inr (st_Typecode r \<notin> set codes)"
  by (simp_all add: passes_entry_def type_entry_def stats_def)

lemma passes_eval_entry:
  "passes_entry env r (eval_entry expr) = env_eval env expr r"
  by (simp add: passes_entry_def eval_entry_def)

theorem C4_passes_filters_conjunction_witness:
  "passes_entry example_env (example_stats ''a'' 100 S_IFREG) (size_entry ''<'' 1024)
     = Inr True \<and>
   passes_filters example_env [size_entry ''<'' 1024] (example_stats ''a'' 100 S_IFREG)
     = Inr True \<and>
   passes_entry example_env (example_stats ''b'' 2048 S_IFREG) (size_entry ''<'' 1024)
     = Inr False \<and>
   passes_entry example_env (example_stats ''b'' 2048 S_IFREG) (eval_entry ''oops'')
     = Inl (NameError ''oops'') \<and>
   passes_filters example_env [size_entry ''<'' 1024, eval_entry ''oops'']
     (example_stats ''b'' 2048 S_IFREG) = Inr False \<and>
   apply_all_filters example_env [size_entry ''<'' 1024]
     [example_stats ''a'' 100 S_IFREG, example_stats ''b'' 2048 S_IFREG]
     = Inr [example_stats ''a'' 100 S_IFREG]"
proof -
  let ?a = "example_stats ''a'' 100 S_IFREG" and ?b = "example_stats ''b'' 2048 S_IFREG"
  have sz: "st_size ?a = 100" "st_size ?b = 2048" by (simp_all add: example_stats_def)
  have ev: "passes_entry example_env ?b (eval_entry ''oops'') = Inl (NameError ''oops'')"
    by (simp add: passes_eval_entry example_env_def)
  have one: "passes_filters example_env [size_entry ''<'' 1024] ?a = Inr True"
    using C4_passes_filters_conjunction[where env = example_env
            and fl = "[size_entry ''<'' 1024]" and r = ?a]
    by (simp add: passes_size_entry sz)
  have two: "passes_filters example_env [size_entry ''<'' 1024, eval_entry ''oops''] ?b
               = Inr False"
    using C4_passes_filters_conjunction[where env = example_env and ps = "[]"
            and e = "size_entry ''<'' 1024" and qs = "[eval_entry ''oops'']" and r = ?b]
    by (simp add: passes_size_entry sz)
  have total: "\<forall>r\<in>set [?a, ?b]. \<exists>b. passes_filters example_env [size_entry ''<'' 1024] r = Inr b"
    by (auto simp: passes_size_entry sz)
  have "apply_all_filters example_env [size_entry ''<'' 1024] [?a, ?b] =
          Inr (filter (\<lambda>r. passes_filters example_env [size_entry ''<'' 1024] r = Inr True)
                 [?a, ?b])"
    using C4_passes_filters_conjunction[where env = example_env
            and fl = "[size_entry ''<'' 1024]" and statlist = "[?a, ?b]"] total
    by blast
  then have three: "apply_all_filters example_env [size_entry ''<'' 1024] [?a, ?b] = Inr [?a]"
    by (simp add: passes_size_entry sz)
  show ?thesis using one two three ev by (simp add: passes_size_entry sz)
qed

subsection \<open>Registering a size filter and a type filter\<close>

lemma index_of_size: "index_of ''size'' field_words = Some 6"
  by code_simp

lemma index_of_Typecode: "index_of ''Typecode'' field_words = Some 14"
  by code_simp

lemma FileSize_parse_1k: "FileSize_parse ''1k'' = Inr 1024"
  by code_simp

lemma from_string_1k:
  assumes "size_cache_ok known"
  shows "\<exists>k. FileSize_from_string known ''1k'' = (Inr 1024, k)"
proof -
  have "fst (FileSize_from_string known ''1k'') = Inr 1024"
    using FileSize_from_string_fst[OF assms] by (simp add: FileSize_parse_1k)
  then show ?thesis by (cases "FileSize_from_string known ''1k''") simp
qed

lemma add_filter_size_default:
  assumes "size_cache_ok (size_known_strings st)"
  shows "fst (add_filter env st ''size'' ''1k'') = Inr () \<and>
         filter_list (snd (add_filter env st ''size'' ''1k'')) =
           filter_list st @ [size_entry ''<'' 1024]"
proof -
  obtain k where k: "FileSize_from_string (size_known_strings st) ''1k'' = (Inr 1024, k)"
    using from_string_1k[OF assms] by blast
  have nv: "native_value_of env st ''size'' 0 ''1k'' =
              (Inr (Some ''<'', NativeInt 1024), st\<lparr>size_known_strings := k\<rparr>)"
    by (simp add: native_value_of_def k)
  show ?thesis
    by (simp add: add_filter_def nv index_of_size size_entry_def)
qed

lemma add_filter_size_inverted:
  assumes "size_cache_ok (size_known_strings st)"
  shows "fst (add_filter env st ''size'' ''+1k'') = Inr () \<and>
         filter_list (snd (add_filter env st ''size'' ''+1k'')) =
           filter_list st @ [size_entry ''>'' 1024]"
proof -
  obtain k where k: "FileSize_from_string (size_known_strings st) ''1k'' = (Inr 1024, k)"
    using from_string_1k[OF assms] by blast
  have nv: "native_value_of env st ''size'' (Suc 0) ''1k'' =
              (Inr (Some ''>'', NativeInt 1024), st\<lparr>size_known_strings := k\<rparr>)"
    by (simp add: native_value_of_def k)
  show ?thesis
    by (simp add: add_filter_def nv index_of_size size_entry_def)
qed

lemma apply_all_filters_single:
  assumes "\<And>r. passes_entry env r e = Inr (P r)"
  shows "apply_all_filters env [e] statlist = Inr (filter P statlist)"
proof -
  have "apply_filters_loop env [e] statlist = Inr (filter P statlist)"
    by (induction statlist) (simp_all add: assms)
  then show ?thesis by (simp add: apply_all_filters_def)
qed

lemma filter_sizes:
  assumes "map st_size statlist = [100, 2048, 10240]"
  shows "map st_size (filter (\<lambda>r. st_size r < 1024) statlist) = [100]"
    and "map st_size (filter (\<lambda>r. st_size r > 1024) statlist) = [2048, 10240]"
proof -
  obtain a b c where l: "statlist = [a, b, c]"
    using assms by (auto simp: map_eq_Cons_conv)
  with assms show "map st_size (filter (\<lambda>r. st_size r < 1024) statlist) = [100]"
    and "map st_size (filter (\<lambda>r. st_size r > 1024) statlist) = [2048, 10240]"
    by simp_all
qed

text \<open>
  C5. In a program whose size dictionary it has built itself, registering the size
  operand \<open>"1k"\<close> succeeds and appends an entry that a record passes exactly when
  its size is less than 1024; the operand \<open>"+1k"\<close> appends an entry that a record
  passes exactly when its size is greater than 1024. When these are the only
  entries, of records with the sizes 100, 2048, 10240 the first keeps the record
  of 100 bytes and the second the records of 2048 and 10240 bytes.
\<close>

theorem C5_size_filter:
  assumes "size_cache_ok (size_known_strings st)"
  shows
   "fst (add_filter env st ''size'' ''1k'') = Inr () \<and>
    filter_list (snd (add_filter env st ''size'' ''1k'')) =
      filter_list st @ [size_entry ''<'' 1024] \<and>
    passes_entry env r (size_entry ''<'' 1024) = Inr (st_size r < 1024) \<and>
    fst (add_filter env st ''size'' ''+1k'') = Inr () \<and>
    filter_list (snd (add_filter env st ''size'' ''+1k'')) =
      filter_list st @ [size_entry ''>'' 1024] \<and>
    passes_entry env r (size_entry ''>'' 1024) = Inr (st_size r > 1024) \<and>
    (filter_list st = [] \<longrightarrow>
       passes_filters env (filter_list (snd (add_filter env st ''size'' ''1k''))) r =
         Inr (st_size r < 1024) \<and>
       passes_filters env (filter_list (snd (add_filter env st ''size'' ''+1k''))) r =
         Inr (st_size r > 1024) \<and>
       apply_all_filters env (filter_list (snd (add_filter env st ''size'' ''1k''))) statlist =
         Inr (filter (\<lambda>r. st_size r < 1024) statlist) \<and>
       apply_all_filters env (filter_list (snd (add_filter env st ''size'' ''+1k''))) statlist =
         Inr (filter (\<lambda>r. st_size r > 1024) statlist)) \<and>
    (map st_size statlist = [100, 2048, 10240] \<longrightarrow>
       map st_size (filter (\<lambda>r. st_size r < 1024) statlist) = [100] \<and>
       map st_size (filter (\<lambda>r. st_size r > 1024) statlist) = [2048, 10240])"
proof -
  note d = add_filter_size_default[OF assms, of env]
  note i = add_filter_size_inverted[OF assms, of env]
  have only: "filter_list st = [] \<longrightarrow>
       passes_filters env (filter_list (snd (add_filter env st ''size'' ''1k''))) r =
         Inr (st_size r < 1024) \<and>
       passes_filters env (filter_list (snd (add_filter env st ''size'' ''+1k''))) r =
         Inr (st_size r > 1024) \<and>
       apply_all_filters env (filter_list (snd (add_filter env st ''size'' ''1k''))) statlist =
         Inr (filter (\<lambda>r. st_size r < 1024) statlist) \<and>
       apply_all_filters env (filter_list (snd (add_filter env st ''size'' ''+1k''))) statlist =
         Inr (filter (\<lambda>r. st_size r > 1024) statlist)"
    using apply_all_filters_single[of env "size_entry ''<'' 1024" "\<lambda>r. st_size r < 1024" statlist]
      apply_all_filters_single[of env "size_entry ''>'' 1024" "\<lambda>r. st_size r > 1024" statlist]
    by (auto simp: d i passes_size_entry split: bool.splits)
  have sizes: "map st_size statlist = [100, 2048, 10240] \<longrightarrow>
       map st_size (filter (\<lambda>r. st_size r < 1024) statlist) = [100] \<and>
       map st_size (filter (\<lambda>r. st_size r > 1024) statlist) = [2048, 10240]"
    using filter_sizes[of statlist] by simp
  show ?thesis
    using d i only sizes by (simp only: passes_size_entry simp_thms)
qed

theorem C5_size_filter_witness:
  "size_cache_ok (size_known_strings initial_state) \<and>
   filter_list initial_state = [] \<and>
   map st_size [example_stats ''a'' 100 S_IFREG, example_stats ''b'' 2048 S_IFREG,
                example_stats ''c'' 10240 S_IFREG] = [100, 2048, 10240] \<and>
   apply_all_filters example_env
     (filter_list (snd (add_filter example_env initial_state ''size'' ''1k'')))
     [example_stats ''a'' 100 S_IFREG, example_stats ''b'' 2048 S_IFREG,
      example_stats ''c'' 10240 S_IFREG]
     = Inr [example_stats ''a'' 100 S_IFREG] \<and>
   apply_all_filters example_env
     (filter_list (snd (add_filter example_env initial_state ''size'' ''+1k'')))
     [example_stats ''a'' 100 S_IFREG, example_stats ''b'' 2048 S_IFREG,
      example_stats ''c'' 10240 S_IFREG]
     = Inr [example_stats ''b'' 2048 S_IFREG, example_stats ''c'' 10240 S_IFREG]"
proof -
  have ok: "size_cache_ok (size_known_strings initial_state)"
    by (simp add: initial_state_def size_cache_ok_def)
  have empty: "filter_list initial_state = []" by (simp add: initial_state_def)
  have sz: "st_size (example_stats ''a'' 100 S_IFREG) = 100"
    "st_size (example_stats ''b'' 2048 S_IFREG) = 2048"
    "st_size (example_stats ''c'' 10240 S_IFREG) = 10240"
    by (simp_all add: example_stats_def)
  show ?thesis
    using C5_size_filter[OF ok, where env = example_env
            and r = "example_stats ''a'' 100 S_IFREG"
            and statlist = "[example_stats ''a'' 100 S_IFREG, example_stats ''b'' 2048 S_IFREG,
                             example_stats ''c'' 10240 S_IFREG]"]
      ok empty
    by (auto simp: sz)
qed

lemma from_char_link: "from_char c = Some S_IFLNK \<longleftrightarrow> c = CHR ''l''"
  by (simp add: from_char_def S_IFDIR_def S_IFCHR_def S_IFBLK_def S_IFREG_def S_IFLNK_def
        S_IFIFO_def S_IFSOCK_def)

lemma from_char_nonzero: "from_char c \<noteq> Some 0"
  by (simp add: from_char_def S_IFDIR_def S_IFCHR_def S_IFBLK_def S_IFREG_def S_IFLNK_def
        S_IFIFO_def S_IFSOCK_def)

lemma typecodes_of_set:
  "typecodes_of cs = Inr l \<Longrightarrow> set l = {x. \<exists>c\<in>set cs. from_char c = Some x}"
proof (induction cs arbitrary: l)
  case Nil
  then show ?case by simp
next
  case (Cons c cs)
  then show ?case by (auto split: option.splits sum.splits)
qed

lemma typecode_list_broken_link:
  assumes "typecode_list_from_string type_list = Inr l"
  shows "0 \<in> set l \<longleftrightarrow> S_IFLNK \<in> set l"
proof -
  from assms obtain tc_set codes where
    codes: "typecodes_of tc_set = Inr codes" and
    l: "l = (if CHR ''l'' \<in> set tc_set then codes @ [0] else codes)"
    by (auto simp: typecode_list_from_string_def Let_def
             split: sum.splits prod.splits error.splits)
  have s: "set codes = {x. \<exists>c\<in>set tc_set. from_char c = Some x}"
    using codes by (rule typecodes_of_set)
  have "0 \<notin> set codes" using s from_char_nonzero by auto
  moreover have "S_IFLNK \<in> set codes \<longleftrightarrow> CHR ''l'' \<in> set tc_set"
    using s from_char_link by auto
  moreover have "S_IFLNK \<noteq> 0" by (simp add: S_IFLNK_def)
  ultimately show ?thesis using l by auto
qed

lemma typecode_list_d: "typecode_list_from_string ''d'' = Inr [S_IFDIR]"
  by code_simp

lemma typecode_list_l: "typecode_list_from_string ''l'' = Inr [S_IFLNK, 0]"
  by code_simp

lemma add_filter_type:
  assumes "typecode_list_from_string val = Inr codes" and "val \<noteq> []" and "hd val \<noteq> CHR ''+''"
  shows "fst (add_filter env st ''Typecode'' val) = Inr ()"
    and "filter_list (snd (add_filter env st ''Typecode'' val)) =
           filter_list st @ [type_entry ''not in'' val codes]"
    and "fst (add_filter env st ''Typecode'' (CHR ''+'' # val)) = Inr ()"
    and "filter_list (snd (add_filter env st ''Typecode'' (CHR ''+'' # val))) =
           filter_list st @ [type_entry ''in'' val codes]"
  using assms
  by (simp_all add: add_filter_def native_value_of_def index_of_Typecode type_entry_def)

lemma filter_typecodes:
  assumes "map st_Typecode statlist = [S_IFREG, S_IFDIR, 0]"
  shows "map st_Typecode (filter (\<lambda>r. st_Typecode r \<notin> set [S_IFDIR]) statlist) = [S_IFREG, 0]"
    and "map st_Typecode (filter (\<lambda>r. st_Typecode r \<in> set [S_IFDIR]) statlist) = [S_IFDIR]"
proof -
  obtain a b c where l: "statlist = [a, b, c]"
    using assms by (auto simp: map_eq_Cons_conv)
  with assms
  show "map st_Typecode (filter (\<lambda>r. st_Typecode r \<notin> set [S_IFDIR]) statlist) = [S_IFREG, 0]"
    and "map st_Typecode (filter (\<lambda>r. st_Typecode r \<in> set [S_IFDIR]) statlist) = [S_IFDIR]"
    by (simp_all add: S_IFREG_def S_IFDIR_def)
qed

text \<open>
  C6. In every list that \<open>typecode_list_from_string\<close> returns, the code 0 of a broken
  link is present exactly when the code of a symbolic link is. Registering the
  type operand \<open>"d"\<close> appends an entry that a record passes exactly when it is no
  directory, \<open>"+d"\<close> one that a record passes exactly when it is a directory;
  \<open>"l"\<close> excludes links and broken links alike and \<open>"+l"\<close> keeps exactly these.
  When it is the only entry, of records of the types regular, directory and broken
  link, \<open>"d"\<close> keeps the regular file and the broken link, and \<open>"+d"\<close> keeps the
  directory.
\<close>

theorem C6_type_filter:
  "(typecode_list_from_string type_list = Inr l \<longrightarrow> (0 \<in> set l \<longleftrightarrow> S_IFLNK \<in> set l)) \<and>
   fst (add_filter env st ''Typecode'' ''d'') = Inr () \<and>
   filter_list (snd (add_filter env st ''Typecode'' ''d'')) =
     filter_list st @ [type_entry ''not in'' ''d'' [S_IFDIR]] \<and>
   passes_entry env r (type_entry ''not in'' ''d'' [S_IFDIR]) = Inr (st_Typecode r \<noteq> S_IFDIR) \<and>
   fst (add_filter env st ''Typecode'' ''+d'') = Inr () \<and>
   filter_list (snd (add_filter env st ''Typecode'' ''+d'')) =
     filter_list st @ [type_entry ''in'' ''d'' [S_IFDIR]] \<and>
   passes_entry env r (type_entry ''in'' ''d'' [S_IFDIR]) = Inr (st_Typecode r = S_IFDIR) \<and>
   filter_list (snd (add_filter env st ''Typecode'' ''l'')) =
     filter_list st @ [type_entry ''not in'' ''l'' [S_IFLNK, 0]] \<and>
   passes_entry env r (type_entry ''not in'' ''l'' [S_IFLNK, 0]) =
     Inr (st_Typecode r \<noteq> S_IFLNK \<and> st_Typecode r \<noteq> 0) \<and>
   filter_list (snd (add_filter env st ''Typecode'' ''+l'')) =
     filter_list st @ [type_entry ''in'' ''l'' [S_IFLNK, 0]] \<and>
   passes_entry env r (type_entry ''in'' ''l'' [S_IFLNK, 0]) =
     Inr (st_Typecode r = S_IFLNK \<or> st_Typecode r = 0) \<and>
   (filter_list st = [] \<and> map st_Typecode statlist = [S_IFREG, S_IFDIR, 0] \<longrightarrow>
      (\<exists>kept. apply_all_filters env (filter_list (snd (add_filter env st ''Typecode'' ''d'')))
                 statlist = Inr kept \<and>
              map st_Typecode kept = [S_IFREG, 0]) \<and>
      (\<exists>kept. apply_all_filters env (filter_list (snd (add_filter env st ''Typecode'' ''+d'')))
                 statlist = Inr kept \<and>
              map st_Typecode kept = [S_IFDIR]))"
proof -
  note d = add_filter_type[OF typecode_list_d, of env st, simplified]
  note l = add_filter_type[OF typecode_list_l, of env st, simplified]
  have broken: "typecode_list_from_string type_list = Inr l \<longrightarrow>
                  (0 \<in> set l \<longleftrightarrow> S_IFLNK \<in> set l)"
    using typecode_list_broken_link[of type_list l] by blast
  have three: "filter_list st = [] \<and> map st_Typecode statlist = [S_IFREG, S_IFDIR, 0] \<longrightarrow>
      (\<exists>kept. apply_all_filters env (filter_list (snd (add_filter env st ''Typecode'' ''d'')))
                 statlist = Inr kept \<and>
              map st_Typecode kept = [S_IFREG, 0]) \<and>
      (\<exists>kept. apply_all_filters env (filter_list (snd (add_filter env st ''Typecode'' ''+d'')))
                 statlist = Inr kept \<and>
              map st_Typecode kept = [S_IFDIR])"
  proof (intro impI, elim conjE)
    assume e: "filter_list st = []" and m: "map st_Typecode statlist = [S_IFREG, S_IFDIR, 0]"
    have a: "apply_all_filters env [type_entry ''not in'' ''d'' [S_IFDIR]] statlist =
               Inr (filter (\<lambda>r. st_Typecode r \<notin> set [S_IFDIR]) statlist)"
      by (rule apply_all_filters_single) (rule passes_type_entry)
    have b: "apply_all_filters env [type_entry ''in'' ''d'' [S_IFDIR]] statlist =
               Inr (filter (\<lambda>r. st_Typecode r \<in> set [S_IFDIR]) statlist)"
      by (rule apply_all_filters_single) (rule passes_type_entry)
    show "(\<exists>kept. apply_all_filters env (filter_list (snd (add_filter env st ''Typecode'' ''d'')))
                 statlist = Inr kept \<and>
              map st_Typecode kept = [S_IFREG, 0]) \<and>
      (\<exists>kept. apply_all_filters env (filter_list (snd (add_filter env st ''Typecode'' ''+d'')))
                 statlist = Inr kept \<and>
              map st_Typecode kept = [S_IFDIR])"
      using a b filter_typecodes[OF m] by (simp add: d e)
  qed
  have p: "passes_entry env r (type_entry ''not in'' ''d'' [S_IFDIR]) = Inr (st_Typecode r \<noteq> S_IFDIR)"
    "passes_entry env r (type_entry ''in'' ''d'' [S_IFDIR]) = Inr (st_Typecode r = S_IFDIR)"
    "passes_entry env r (type_entry ''not in'' ''l'' [S_IFLNK, 0]) =
       Inr (st_Typecode r \<noteq> S_IFLNK \<and> st_Typecode r \<noteq> 0)"
    "passes_entry env r (type_entry ''in'' ''l'' [S_IFLNK, 0]) =
       Inr (st_Typecode r = S_IFLNK \<or> st_Typecode r = 0)"
    by (simp_all add: passes_type_entry)
  show ?thesis
    using broken three by (simp only: d l p simp_thms)
qed

theorem C6_type_filter_witness:
  "typecode_list_from_string ''dir,link'' = Inr [S_IFDIR, S_IFLNK, 0] \<and>
   0 \<in> set [S_IFDIR, S_IFLNK, 0] \<and> S_IFLNK \<in> set [S_IFDIR, S_IFLNK, 0] \<and>
   filter_list initial_state = [] \<and>
   map st_Typecode [example_stats ''a'' 1 S_IFREG, example_stats ''b'' 1 S_IFDIR,
                    example_stats ''c'' 1 0] = [S_IFREG, S_IFDIR, 0] \<and>
   apply_all_filters example_env
     (filter_list (snd (add_filter example_env initial_state ''Typecode'' ''d'')))
     [example_stats ''a'' 1 S_IFREG, example_stats ''b'' 1 S_IFDIR, example_stats ''c'' 1 0]
     = Inr [example_stats ''a'' 1 S_IFREG, example_stats ''c'' 1 0] \<and>
   apply_all_filters example_env
     (filter_list (snd (add_filter example_env initial_state ''Typecode'' ''+d'')))
     [example_stats ''a'' 1 S_IFREG, example_stats ''b'' 1 S_IFDIR, example_stats ''c'' 1 0]
     = Inr [example_stats ''b'' 1 S_IFDIR]"
proof -
  let ?l = "[example_stats ''a'' 1 S_IFREG, example_stats ''b'' 1 S_IFDIR,
             example_stats ''c'' 1 0]"
  have tl: "typecode_list_from_string ''dir,link'' = Inr [S_IFDIR, S_IFLNK, 0]"
    by code_simp
  have empty: "filter_list initial_state = []" by (simp add: initial_state_def)
  have tc: "map st_Typecode ?l = [S_IFREG, S_IFDIR, 0]" by (simp add: example_stats_def)
  note c6 = C6_type_filter[where env = example_env and st = initial_state
              and statlist = ?l and type_list = "''dir,link''" and l = "[S_IFDIR, S_IFLNK, 0]"
              and r = "example_stats ''a'' 1 S_IFREG"]
  have fl: "filter_list (snd (add_filter example_env initial_state ''Typecode'' ''d'')) =
              [type_entry ''not in'' ''d'' [S_IFDIR]]"
    "filter_list (snd (add_filter example_env initial_state ''Typecode'' ''+d'')) =
              [type_entry ''in'' ''d'' [S_IFDIR]]"
    using c6 empty by simp_all
  have "apply_all_filters example_env [type_entry ''not in'' ''d'' [S_IFDIR]] ?l =
             Inr (filter (\<lambda>r. st_Typecode r \<notin> set [S_IFDIR]) ?l)"
    by (rule apply_all_filters_single) (rule passes_type_entry)
  then have a: "apply_all_filters example_env [type_entry ''not in'' ''d'' [S_IFDIR]] ?l =
             Inr [example_stats ''a'' 1 S_IFREG, example_stats ''c'' 1 0]"
    by (simp add: example_stats_def S_IFREG_def S_IFDIR_def)
  have "apply_all_filters example_env [type_entry ''in'' ''d'' [S_IFDIR]] ?l =
             Inr (filter (\<lambda>r. st_Typecode r \<in> set [S_IFDIR]) ?l)"
    by (rule apply_all_filters_single) (rule passes_type_entry)
  then have b: "apply_all_filters example_env [type_entry ''in'' ''d'' [S_IFDIR]] ?l =
             Inr [example_stats ''b'' 1 S_IFDIR]"
    by (simp add: example_stats_def S_IFREG_def S_IFDIR_def)
  have lnk: "0 \<in> set [S_IFDIR, S_IFLNK, 0] \<and> S_IFLNK \<in> set [S_IFDIR, S_IFLNK, 0]"
    using c6 tl by simp
  show ?thesis
    using tl empty tc lnk by (simp only: fl a b simp_thms)
qed

subsection \<open>Sorting by several keys\<close>















lemma index_of_s: "index_of CHR ''s'' field_letters = Some 6"
  by code_simp


lemma letter_key_s: "letter_key CHR ''s'' r = IntVal (st_size r)"
  by (simp add: letter_key_def index_of_s stats_def)








subsection \<open>Traversal of one flat directory\<close>

lemma stat_files_eq: "stat_files ps r = (stat_records ps, emit (stat_errors ps) r)"
proof (induction ps arbitrary: r)
  case Nil
  then show ?case by (simp add: emit_def)
next
  case (Cons p ps)
  obtain filepath node where p: "p = (filepath, node)" by (cases p)
  show ?case
    by (cases "fs_lstat node") (simp_all add: p Cons.IH emit_def)
qed

lemma sort_passes_Nil: "sort_passes cs reverse [] = Inr []"
  by (induction cs) (simp_all add: sort_pass_def)

lemma sort_stats_Nil: "opts_sort \<noteq> [] \<Longrightarrow> sort_stats opts_sort [] = Inr []"
  by (cases opts_sort) (simp_all add: sort_stats_def arg_has_plus_def sort_passes_Nil)

lemma rows_append: "rows (xs @ ys) = rows xs @ rows ys"
  by (induction xs rule: rows.induct) simp_all

lemma rows_map_Row: "rows (map Row l) = l"
  by (induction l) simp_all

lemma rows_stat_errors: "rows (stat_errors ps) = []"
  by (induction ps rule: stat_errors.induct) (simp_all split: sum.splits)

lemma no_Directory_stat_errors:
  "filter (\<lambda>ev. \<not> is_Directory ev) (stat_errors ps) = stat_errors ps"
  by (induction ps rule: stat_errors.induct) (simp_all split: sum.splits)

lemma no_Directory_rows: "filter (\<lambda>ev. \<not> is_Directory ev) (map Row l) = map Row l"
  by (induction l) simp_all

text \<open>What \<open>display_statlist\<close> appends and counts, by the merge flag.\<close>

lemma display_statlist_flag:
  "display_statlist (opts\<lparr>opt_merge := m\<rparr>) env fl statlist0 r =
     (case apply_all_filters env fl statlist0 of
        Inl e \<Rightarrow> Inl e
      | Inr filtered \<Rightarrow>
          (case sort_stats (opt_sort opts) filtered of
             Inl e \<Rightarrow> Inl e
           | Inr statlist \<Rightarrow>
               Inr (r\<lparr>TOTFILES := length statlist,
                      TOTSIZE := sum_list (map st_size statlist),
                      GTOTFILES := (if statlist \<noteq> [] \<and> \<not> opt_quiet opts
                                    then GTOTFILES r + length statlist else GTOTFILES r),
                      GTOTSIZE := (if statlist \<noteq> [] \<and> \<not> opt_quiet opts
                                   then GTOTSIZE r + sum_list (map st_size statlist)
                                   else GTOTSIZE r),
                      printed := printed r
                        @ (if statlist \<noteq> [] \<and> \<not> opt_quiet opts \<and> \<not> m
                           then [Directory (if st_path (hd statlist) = [] then ''.''
                                            else st_path (hd statlist))]
                           else [])
                        @ map Row statlist
                        @ (if statlist \<noteq> [] \<and> \<not> opt_quiet opts
                           then [Total (length statlist) (sum_list (map st_size statlist))]
                           else [])\<rparr>)))"
  by (simp add: display_statlist_def Let_def split: sum.splits)

lemma apply_all_filters_Nil: "apply_all_filters env fl [] = Inr []"
  by (simp add: apply_all_filters_def)

lemma show_paths_flat:
  assumes "\<not> opt_recursive opts" and "\<not> opt_directory opts" and "fs_isdir node"
    and "opt_sort opts \<noteq> []"
  shows "case show_paths (opts\<lparr>opt_merge := False\<rparr>) env fl [(path, node)] run0 of
           Inl e \<Rightarrow> show_paths (opts\<lparr>opt_merge := True\<rparr>) env fl [(path, node)] run0 = Inl e
         | Inr rd \<Rightarrow>
             (\<exists>rm. show_paths (opts\<lparr>opt_merge := True\<rparr>) env fl [(path, node)] run0 = Inr rm \<and>
                   rows (printed rm) = rows (printed rd) \<and>
                   printed rm = filter (\<lambda>ev. \<not> is_Directory ev) (printed rd) \<and>
                   TOTFILES rm = TOTFILES rd \<and> TOTSIZE rm = TOTSIZE rd \<and>
                   GTOTFILES rm = GTOTFILES rd \<and> GTOTSIZE rm = GTOTSIZE rd)"
proof -
  obtain st isdir islink listdir_error entries where
    node: "node = FsNode st isdir islink listdir_error entries" by (cases node)
  have isdir: "isdir" using assms(3) node by simp
  have sp: "show_paths (opts\<lparr>opt_merge := m\<rparr>) env fl [(path, node)] run0 =
              (case stat_directory (opts\<lparr>opt_merge := m\<rparr>) env fl path node run0 of
                 Inl e \<Rightarrow> Inl e
               | Inr (statlist, r1) \<Rightarrow>
                   (case (if statlist \<noteq> []
                          then display_statlist (opts\<lparr>opt_merge := m\<rparr>) env fl statlist r1
                          else Inr r1) of
                      Inl e \<Rightarrow> Inl e
                    | Inr r2 \<Rightarrow>
                        Inr (if TOTFILES r2 \<noteq> GTOTFILES r2 \<and> \<not> opt_quiet opts
                             then emit [GrandTotal (GTOTFILES r2) (GTOTSIZE r2)] r2
                             else r2)))" for m
    using assms(2,3)
    by (simp add: show_paths_def del: stat_directory.simps split: sum.splits prod.splits)
  let ?files = "if opt_all opts then entries
                else filter (\<lambda>fn. take 1 (fst fn) \<noteq> ''.'') entries"
  let ?filepaths = "map (\<lambda>fn. (py_join path (fst fn), snd fn)) ?files"
  let ?sl = "stat_records ?filepaths"
  let ?r1 = "emit (stat_errors ?filepaths) run0"
  have sdir: "stat_directory (opts\<lparr>opt_merge := m\<rparr>) env fl path node run0 =
                (case listdir_error of
                   Some msg \<Rightarrow>
                     Inr ([], emit [Stderr (''Unable to access '' @ path @ '': '' @ msg
                                            @ [CHR 0x0A])] run0)
                 | None \<Rightarrow>
                     if ?files = [] then Inr ([], run0)
                     else if \<not> m
                     then (case display_statlist (opts\<lparr>opt_merge := m\<rparr>) env fl ?sl ?r1 of
                             Inl e \<Rightarrow> Inl e
                           | Inr r' \<Rightarrow> Inr ([], r'))
                     else Inr (?sl, ?r1))" for m
    using assms(1) by (simp add: node stat_files_eq Let_def split: option.splits)
  show ?thesis
  proof (cases listdir_error)
    case (Some msg)
    show ?thesis
      unfolding sp sdir Some by (simp add: emit_def run0_def)
  next
    case None
    show ?thesis
    proof (cases "?files = []")
      case True
      show ?thesis
        unfolding sp sdir None using True by (simp add: run0_def)
    next
      case False
      show ?thesis
      proof (cases "apply_all_filters env fl ?sl")
        case (Inl e)
        have "?sl \<noteq> []" using Inl by (auto simp: apply_all_filters_Nil)
        then show ?thesis
          unfolding sp sdir None display_statlist_flag using False Inl by simp
      next
        case (Inr filtered)
        show ?thesis
        proof (cases "sort_stats (opt_sort opts) filtered")
          case (Inl e)
          have "?sl \<noteq> []"
            using Inl Inr assms(4) by (auto simp: apply_all_filters_Nil sort_stats_Nil)
          then show ?thesis
            unfolding sp sdir None display_statlist_flag using False Inl Inr by simp
        next
          case sorted: (Inr statlist)
          show ?thesis
          proof (cases "?sl = []")
            case True
            then have "statlist = []"
              using Inr sorted assms(4) by (simp add: apply_all_filters_Nil sort_stats_Nil)
            then show ?thesis
              unfolding sp sdir None display_statlist_flag using False Inr sorted True
              by (simp add: emit_def run0_def no_Directory_stat_errors rows_stat_errors)
          next
            case nonempty: False
            then show ?thesis
              unfolding sp sdir None display_statlist_flag using False Inr sorted
              by (simp add: emit_def run0_def no_Directory_stat_errors no_Directory_rows
                    rows_stat_errors rows_append rows_map_Row)
          qed
        qed
      qed
    qed
  qed
qed

lemma main_sort_nonempty: "main_sort opts_sort \<noteq> []"
  by (simp add: main_sort_def Let_def)

text \<open>
  C9. For one directory given on the command line, without \<open>--recursive\<close> and
  without \<open>--directory\<close>: when the run without \<open>--merge\<close> ends in an exception, the
  run with \<open>--merge\<close> ends in the same exception; otherwise both runs print the same
  records in the same order, the output with \<open>--merge\<close> is the output without it
  less the \<open>Directory\<close> header, and the counters agree.
\<close>

theorem C9_merge_flat_directory:
  assumes "\<not> opt_recursive opts" and "\<not> opt_directory opts" and "fs_isdir node"
  shows "case main env st (opts\<lparr>opt_merge := False\<rparr>) filter_args [(path, node)] of
           Inl e \<Rightarrow>
             main env st (opts\<lparr>opt_merge := True\<rparr>) filter_args [(path, node)] = Inl e
         | Inr rd \<Rightarrow>
             (\<exists>rm. main env st (opts\<lparr>opt_merge := True\<rparr>) filter_args [(path, node)] = Inr rm \<and>
                   rows (printed rm) = rows (printed rd) \<and>
                   printed rm = filter (\<lambda>ev. \<not> is_Directory ev) (printed rd) \<and>
                   TOTFILES rm = TOTFILES rd \<and> TOTSIZE rm = TOTSIZE rd \<and>
                   GTOTFILES rm = GTOTFILES rd \<and> GTOTSIZE rm = GTOTSIZE rd)"
proof (cases "parse_filters env st filter_args")
  case (Pair result st')
  show ?thesis
  proof (cases result)
    case (Inl e)
    then show ?thesis using Pair by (simp add: main_def)
  next
    case (Inr u)
    let ?o = "opts\<lparr>opt_quiet := (opt_directory opts \<or> opt_quiet opts),
                   opt_sort := main_sort (opt_sort opts)\<rparr>"
    have flat: "\<not> opt_recursive ?o" "\<not> opt_directory ?o" "opt_sort ?o \<noteq> []"
      using assms(1,2) main_sort_nonempty by simp_all
    have m: "main env st (opts\<lparr>opt_merge := m\<rparr>) filter_args [(path, node)] =
               show_paths (?o\<lparr>opt_merge := m\<rparr>) env (filter_list st') [(path, node)] run0"
      for m
      using Pair Inr by (cases opts) (simp add: main_def)
    show ?thesis
      unfolding m
      by (rule show_paths_flat[OF flat(1,2) assms(3) flat(3)])
  qed
qed

theorem C9_merge_flat_directory_witness:
  "\<not> opt_recursive example_options \<and> \<not> opt_directory example_options \<and>
   fs_isdir example_dir \<and>
   main example_env initial_state (example_options\<lparr>opt_merge := False\<rparr>)
     [(1700000000, Size, ''1k'')] [(''dir'', example_dir)] =
     Inr \<lparr>TOTFILES = 2, TOTSIZE = 10, GTOTFILES = 2, GTOTSIZE = 10,
          printed =
            [Stderr (''Cannot stat file dir/gone: No such file or directory'' @ [CHR 0x0A]),
             Directory ''dir'',
             Row (example_stats ''a'' 5 S_IFREG), Row (example_stats ''b'' 5 S_IFREG),
             Total 2 10]\<rparr> \<and>
   main example_env initial_state (example_options\<lparr>opt_merge := True\<rparr>)
     [(1700000000, Size, ''1k'')] [(''dir'', example_dir)] =
     Inr \<lparr>TOTFILES = 2, TOTSIZE = 10, GTOTFILES = 2, GTOTSIZE = 10,
          printed =
            [Stderr (''Cannot stat file dir/gone: No such file or directory'' @ [CHR 0x0A]),
             Row (example_stats ''a'' 5 S_IFREG), Row (example_stats ''b'' 5 S_IFREG),
             Total 2 10]\<rparr>"
proof -
  have o: "\<not> opt_recursive example_options" "\<not> opt_directory example_options"
    by (simp_all add: example_options_def)
  have d: "fs_isdir example_dir" by (simp add: example_dir_def)
  have default: "main example_env initial_state (example_options\<lparr>opt_merge := False\<rparr>)
     [(1700000000, Size, ''1k'')] [(''dir'', example_dir)] =
     Inr \<lparr>TOTFILES = 2, TOTSIZE = 10, GTOTFILES = 2, GTOTSIZE = 10,
          printed =
            [Stderr (''Cannot stat file dir/gone: No such file or directory'' @ [CHR 0x0A]),
             Directory ''dir'',
             Row (example_stats ''a'' 5 S_IFREG), Row (example_stats ''b'' 5 S_IFREG),
             Total 2 10]\<rparr>"
    by code_simp
  from C9_merge_flat_directory[OF o d, of example_env initial_state
         "[(1700000000, Size, ''1k'')]" "''dir''"]
  obtain rm where
    rm: "main example_env initial_state (example_options\<lparr>opt_merge := True\<rparr>)
           [(1700000000, Size, ''1k'')] [(''dir'', example_dir)] = Inr rm" and
    p: "printed rm =
          [Stderr (''Cannot stat file dir/gone: No such file or directory'' @ [CHR 0x0A]),
           Row (example_stats ''a'' 5 S_IFREG), Row (example_stats ''b'' 5 S_IFREG),
           Total 2 10]" and
    c: "TOTFILES rm = 2" "TOTSIZE rm = 10" "GTOTFILES rm = 2" "GTOTSIZE rm = 10"
    unfolding default by auto
  have "rm = \<lparr>TOTFILES = 2, TOTSIZE = 10, GTOTFILES = 2, GTOTSIZE = 10,
          printed =
            [Stderr (''Cannot stat file dir/gone: No such file or directory'' @ [CHR 0x0A]),
             Row (example_stats ''a'' 5 S_IFREG), Row (example_stats ''b'' 5 S_IFREG),
             Total 2 10]\<rparr>"
    using p c by (cases rm) simp
  then show ?thesis using o d default rm by simp
qed

subsection \<open>Errors of the parsers, of the registration and of the traversal\<close>


















end
